theory Spec2Isabelle
  imports Complex_Main
begin

section \<open>Dense tensors\<close>

text \<open>
  The notebook works on torch tensors of rank one and two.  A rank-one tensor is a list of
  reals, a rank-two tensor is the list of its rows.  Floating-point numbers are idealised as
  real numbers; every operation below is the exact counterpart of the torch operation of the
  same name.  The binary elementwise operations are only ever applied to operands of equal
  shape in the notebook, which the shape lemmas further down establish.
\<close>

type_synonym vec = "real list"
type_synonym mat = "real list list"

definition smul_vec :: "real \<Rightarrow> vec \<Rightarrow> vec" where
  "smul_vec c v = map (\<lambda>a. c * a) v"

definition smul_mat :: "real \<Rightarrow> mat \<Rightarrow> mat" where
  "smul_mat c M = map (smul_vec c) M"

definition neg_vec :: "vec \<Rightarrow> vec" where
  "neg_vec v = map uminus v"

definition neg_mat :: "mat \<Rightarrow> mat" where
  "neg_mat M = map neg_vec M"

definition add_vec :: "vec \<Rightarrow> vec \<Rightarrow> vec" where
  "add_vec u v = map2 (+) u v"

definition add_mat :: "mat \<Rightarrow> mat \<Rightarrow> mat" where
  "add_mat A B = map2 add_vec A B"

definition mul_vec :: "vec \<Rightarrow> vec \<Rightarrow> vec" where
  "mul_vec u v = map2 (*) u v"

definition sub_scalar_mat :: "mat \<Rightarrow> real \<Rightarrow> mat" where
  "sub_scalar_mat M c = map (map (\<lambda>a. a - c)) M"

text \<open>
  \<open>torch.tanh\<close> and \<open>torch.atanh\<close>, elementwise, in exact arithmetic.  The exact \<open>tanh\<close> never
  reaches \<open>1\<close> or \<open>-1\<close>, which a floating-point \<open>tanh\<close> does on large arguments, and \<open>artanh\<close>
  stands for \<open>torch.atanh\<close> only inside its domain; \<open>psi_0_with\<close> and \<open>atanh_defined\<close> below
  make both explicit where a statement depends on them.
\<close>

definition tanh_vec :: "vec \<Rightarrow> vec" where
  "tanh_vec v = map tanh v"

definition tanh_mat :: "mat \<Rightarrow> mat" where
  "tanh_mat M = map (map tanh) M"

definition atanh_mat :: "mat \<Rightarrow> mat" where
  "atanh_mat M = map (map artanh) M"

definition outer :: "vec \<Rightarrow> vec \<Rightarrow> mat" where
  "outer u v = map (\<lambda>a. map (\<lambda>b. a * b) v) u"

text \<open>\<open>S @ h\<close>: matrix-vector product.\<close>

definition matvec :: "mat \<Rightarrow> vec \<Rightarrow> vec" where
  "matvec S h = map (\<lambda>row. sum_list (map2 (*) row h)) S"

text \<open>
  \<open>torch.einsum('im,jm,km,lm,kl->ij', A, B, C, D, E)\<close>: the output is indexed by the free
  indices \<open>i\<close> (rows of \<open>A\<close>) and \<open>j\<close> (rows of \<open>B\<close>); the indices \<open>m\<close>, \<open>k\<close> and \<open>l\<close> are
  summed over.
\<close>

definition einsum_im_jm_km_lm_kl :: "mat \<Rightarrow> mat \<Rightarrow> mat \<Rightarrow> mat \<Rightarrow> mat \<Rightarrow> mat" where
  "einsum_im_jm_km_lm_kl A B C D E =
     map (\<lambda>i. map (\<lambda>j. \<Sum>m<length (A ! i). \<Sum>k<length C. \<Sum>l<length D.
                          A ! i ! m * B ! j ! m * C ! k ! m * D ! l ! m * E ! k ! l)
                [0..<length B])
         [0..<length A]"

text \<open>Shape predicates.\<close>

definition is_mat :: "nat \<Rightarrow> nat \<Rightarrow> mat \<Rightarrow> bool" where
  "is_mat n m M \<longleftrightarrow> length M = n \<and> (\<forall>i<n. length (M ! i) = m)"

definition symmetric :: "nat \<Rightarrow> mat \<Rightarrow> bool" where
  "symmetric n M \<longleftrightarrow> is_mat n n M \<and> (\<forall>i<n. \<forall>j<n. M ! i ! j = M ! j ! i)"

text \<open>
  The factorised contraction as the specification words it: for each memory index \<open>m\<close> the
  scalar \<open>v m\<close> is the quadratic form of \<open>psi\<close> at column \<open>m\<close> of \<open>etas\<close>, and the result is the
  \<open>v\<close>-weighted sum of the outer products of the columns.
\<close>

definition quadratic_form_column :: "nat \<Rightarrow> mat \<Rightarrow> mat \<Rightarrow> nat \<Rightarrow> real" where
  "quadratic_form_column n etas psi m =
     (\<Sum>k<n. \<Sum>l<n. etas ! k ! m * psi ! k ! l * etas ! l ! m)"

definition Contract_factorized :: "nat \<Rightarrow> nat \<Rightarrow> mat \<Rightarrow> mat \<Rightarrow> mat" where
  "Contract_factorized n k etas psi =
     map (\<lambda>i. map (\<lambda>j. \<Sum>m<k. etas ! i ! m * etas ! j ! m * quadratic_form_column n etas psi m)
                [0..<n])
         [0..<n]"

section \<open>Python objects, names and exceptions\<close>

text \<open>
  A tensor is an object on the heap; a Python name is bound to the address of an object.
  Binding a name to the result of an expression allocates a new object, while the augmented
  assignment \<open>+=\<close> of torch writes into the object the name is already bound to.
\<close>

datatype error = RuntimeError | IndexError | ZeroDivisionError | NameError

datatype tensor = Vec vec | Mat mat

type_synonym addr = nat

record store =
  heap :: "addr \<Rightarrow> tensor option"
  env :: "string \<Rightarrow> addr option"
  fresh :: addr

definition empty_store :: store where
  "empty_store = \<lparr>heap = (\<lambda>_. None), env = (\<lambda>_. None), fresh = 0\<rparr>"

definition ebind :: "error + 'a \<Rightarrow> ('a \<Rightarrow> error + 'b) \<Rightarrow> error + 'b" where
  "ebind r f = (case r of Inl e \<Rightarrow> Inl e | Inr v \<Rightarrow> f v)"

fun seq :: "(store \<Rightarrow> error + store) list \<Rightarrow> store \<Rightarrow> error + store" where
  "seq [] s = Inr s"
| "seq (c # cs) s = ebind (c s) (seq cs)"

text \<open>\<open>name = <new tensor>\<close>\<close>

definition bind_name :: "string \<Rightarrow> tensor \<Rightarrow> store \<Rightarrow> store" where
  "bind_name n t s =
     s\<lparr>heap := (heap s)(fresh s \<mapsto> t), env := (env s)(n \<mapsto> fresh s), fresh := Suc (fresh s)\<rparr>"

text \<open>
  Reading a name: an unbound name raises NameError.  The torch operations applied to the
  value are rank-specific here, so a tensor of the other rank is a RuntimeError.
\<close>

definition get_vec :: "string \<Rightarrow> store \<Rightarrow> error + vec" where
  "get_vec n s =
     (case env s n of
        None \<Rightarrow> Inl NameError
      | Some a \<Rightarrow> (case heap s a of Some (Vec v) \<Rightarrow> Inr v | _ \<Rightarrow> Inl RuntimeError))"

definition get_mat :: "string \<Rightarrow> store \<Rightarrow> error + mat" where
  "get_mat n s =
     (case env s n of
        None \<Rightarrow> Inl NameError
      | Some a \<Rightarrow> (case heap s a of Some (Mat M) \<Rightarrow> Inr M | _ \<Rightarrow> Inl RuntimeError))"

text \<open>\<open>name += d\<close>: in-place addition into the object bound to \<open>name\<close>.\<close>

definition iadd_vec :: "string \<Rightarrow> vec \<Rightarrow> store \<Rightarrow> error + store" where
  "iadd_vec n d s =
     (case env s n of
        None \<Rightarrow> Inl NameError
      | Some a \<Rightarrow>
          (case heap s a of
             Some (Vec v) \<Rightarrow> Inr (s\<lparr>heap := (heap s)(a \<mapsto> Vec (add_vec v d))\<rparr>)
           | _ \<Rightarrow> Inl RuntimeError))"

definition iadd_mat :: "string \<Rightarrow> mat \<Rightarrow> store \<Rightarrow> error + store" where
  "iadd_mat n D s =
     (case env s n of
        None \<Rightarrow> Inl NameError
      | Some a \<Rightarrow>
          (case heap s a of
             Some (Mat M) \<Rightarrow> Inr (s\<lparr>heap := (heap s)(a \<mapsto> Mat (add_mat M D))\<rparr>)
           | _ \<Rightarrow> Inl RuntimeError))"

text \<open>Python's true division \<open>a / b\<close>.\<close>

definition py_div :: "real \<Rightarrow> real \<Rightarrow> error + real" where
  "py_div a b = (if b = 0 then Inl ZeroDivisionError else Inr (a / b))"

section \<open>Parameters and random draws\<close>

record config =
  N :: int
  K :: int
  NUM_STEPS :: int
  dt :: real
  beta :: real
  corruption_level :: real
  memory_to_seed_from :: int

text \<open>
  \<open>torch.randint(2, (n, k))\<close>: the draw \<open>bits i j\<close> is the integer the generator returns for
  entry \<open>(i, j)\<close>, a value in \<open>{0, 1}\<close>.  A negative dimension is a RuntimeError.
\<close>

definition randint :: "int \<Rightarrow> int \<Rightarrow> (nat \<Rightarrow> nat \<Rightarrow> nat) \<Rightarrow> error + mat" where
  "randint n k bits =
     (if n < 0 \<or> k < 0 then Inl RuntimeError
      else Inr (map (\<lambda>i. map (\<lambda>j. real (bits i j)) [0..<nat k]) [0..<nat n]))"

text \<open>
  \<open>torch.rand(length)\<close>: the draw \<open>u i\<close> is the uniform sample for entry \<open>i\<close>, a value in
  the half-open interval from 0 to 1.
\<close>

definition rand :: "int \<Rightarrow> (nat \<Rightarrow> real) \<Rightarrow> error + vec" where
  "rand len u = (if len < 0 then Inl RuntimeError else Inr (map u [0..<nat len]))"

definition generate_corruption_vector :: "int \<Rightarrow> real \<Rightarrow> (nat \<Rightarrow> real) \<Rightarrow> error + vec" where
  "generate_corruption_vector len corruption u =
     ebind (rand len u) (\<lambda>random_vector.
       Inr (map (\<lambda>r. if r \<le> 1 - corruption then 1 else - 1) random_vector))"

text \<open>
  \<open>M[:, idx]\<close> on a tensor with \<open>k\<close> columns: a negative index counts from the end, an index
  outside \<open>-k \<le> idx < k\<close> raises IndexError.  The notebook never writes to the selected
  column nor to \<open>etas\<close>, so the view is modelled by its value.
\<close>

definition select_column :: "int \<Rightarrow> mat \<Rightarrow> int \<Rightarrow> error + vec" where
  "select_column k M idx =
     (let j = (if idx < 0 then idx + k else idx)
      in if 0 \<le> j \<and> j < k then Inr (map (\<lambda>row. row ! nat j) M) else Inl IndexError)"

section \<open>The simulation cell, statement by statement\<close>

text \<open>\<open>etas = 2 * torch.randint(2, (N, K), device=device).float() - 1\<close>\<close>

definition assign_etas :: "config \<Rightarrow> (nat \<Rightarrow> nat \<Rightarrow> nat) \<Rightarrow> store \<Rightarrow> error + store" where
  "assign_etas cfg bits s =
     ebind (randint (N cfg) (K cfg) bits) (\<lambda>r.
       Inr (bind_name ''etas'' (Mat (sub_scalar_mat (smul_mat 2 r) 1)) s))"

text \<open>\<open>mem = etas[:, memory_to_seed_from]\<close>\<close>

definition assign_mem :: "config \<Rightarrow> store \<Rightarrow> error + store" where
  "assign_mem cfg s =
     ebind (get_mat ''etas'' s) (\<lambda>etas.
     ebind (select_column (K cfg) etas (memory_to_seed_from cfg)) (\<lambda>col.
       Inr (bind_name ''mem'' (Vec col) s)))"

text \<open>\<open>x0 = mem * generate_corruption_vector(N, corruption_level, device)\<close>\<close>

definition assign_x0 :: "config \<Rightarrow> (nat \<Rightarrow> real) \<Rightarrow> store \<Rightarrow> error + store" where
  "assign_x0 cfg u s =
     ebind (get_vec ''mem'' s) (\<lambda>mem.
     ebind (generate_corruption_vector (N cfg) (corruption_level cfg) u) (\<lambda>cv.
       Inr (bind_name ''x0'' (Vec (mul_vec mem cv)) s)))"

text \<open>\<open>psi_0 = -torch.outer(torch.tanh(beta * x0), torch.tanh(beta * x0))\<close>\<close>

definition psi_0_of :: "real \<Rightarrow> vec \<Rightarrow> mat" where
  "psi_0_of b x0 = neg_mat (outer (tanh_vec (smul_vec b x0)) (tanh_vec (smul_vec b x0)))"

definition assign_psi_0 :: "config \<Rightarrow> store \<Rightarrow> error + store" where
  "assign_psi_0 cfg s =
     ebind (get_vec ''x0'' s) (\<lambda>x0.
       Inr (bind_name ''psi_0'' (Mat (psi_0_of (beta cfg) x0)) s))"

text \<open>\<open>P0 = (1 / beta) * torch.atanh(psi_0)\<close>\<close>

definition assign_P0 :: "config \<Rightarrow> store \<Rightarrow> error + store" where
  "assign_P0 cfg s =
     ebind (py_div 1 (beta cfg)) (\<lambda>c.
     ebind (get_mat ''psi_0'' s) (\<lambda>psi_0.
       Inr (bind_name ''P0'' (Mat (smul_mat c (atanh_mat psi_0))) s)))"

text \<open>
  \<open>S0 = (1 / beta) * torch.atanh(-(1 / N ** 3) *
          torch.einsum('im,jm,km,lm,kl->ij', etas, etas, etas, etas, psi_0))\<close>
\<close>

definition assign_S0 :: "config \<Rightarrow> store \<Rightarrow> error + store" where
  "assign_S0 cfg s =
     ebind (py_div 1 (beta cfg)) (\<lambda>c.
     ebind (py_div 1 (of_int (N cfg ^ 3))) (\<lambda>w.
     ebind (get_mat ''etas'' s) (\<lambda>etas.
     ebind (get_mat ''psi_0'' s) (\<lambda>psi_0.
       Inr (bind_name ''S0''
              (Mat (smul_mat c (atanh_mat
                      (smul_mat (- w) (einsum_im_jm_km_lm_kl etas etas etas etas psi_0))))) s)))))"

text \<open>\<open>x, S, P = x0.clone(), S0.clone(), P0.clone()\<close>\<close>

definition clone_state :: "store \<Rightarrow> error + store" where
  "clone_state s =
     ebind (get_vec ''x0'' s) (\<lambda>x0.
     ebind (get_mat ''S0'' s) (\<lambda>S0.
     ebind (get_mat ''P0'' s) (\<lambda>P0.
       Inr (bind_name ''P'' (Mat P0) (bind_name ''S'' (Mat S0) (bind_name ''x'' (Vec x0) s))))))"

definition init_cell :: "config \<Rightarrow> (nat \<Rightarrow> nat \<Rightarrow> nat) \<Rightarrow> (nat \<Rightarrow> real) \<Rightarrow> store \<Rightarrow> error + store" where
  "init_cell cfg bits u =
     seq [assign_etas cfg bits, assign_mem cfg, assign_x0 cfg u,
          assign_psi_0 cfg, assign_P0 cfg, assign_S0 cfg, clone_state]"

text \<open>\<open>h = torch.tanh(beta * x)\<close>\<close>

definition assign_h :: "config \<Rightarrow> store \<Rightarrow> error + store" where
  "assign_h cfg s =
     ebind (get_vec ''x'' s) (\<lambda>x.
       Inr (bind_name ''h'' (Vec (tanh_vec (smul_vec (beta cfg) x))) s))"

text \<open>\<open>g = torch.tanh(beta * S)\<close>\<close>

definition assign_g :: "config \<Rightarrow> store \<Rightarrow> error + store" where
  "assign_g cfg s =
     ebind (get_mat ''S'' s) (\<lambda>S.
       Inr (bind_name ''g'' (Mat (tanh_mat (smul_mat (beta cfg) S))) s))"

text \<open>\<open>psi = torch.tanh(beta * P)\<close>\<close>

definition assign_psi :: "config \<Rightarrow> store \<Rightarrow> error + store" where
  "assign_psi cfg s =
     ebind (get_mat ''P'' s) (\<lambda>P.
       Inr (bind_name ''psi'' (Mat (tanh_mat (smul_mat (beta cfg) P))) s))"

text \<open>\<open>x += dt * (-x + S @ h)\<close>\<close>

definition iadd_x :: "config \<Rightarrow> store \<Rightarrow> error + store" where
  "iadd_x cfg s =
     ebind (get_vec ''x'' s) (\<lambda>x.
     ebind (get_mat ''S'' s) (\<lambda>S.
     ebind (get_vec ''h'' s) (\<lambda>h.
       iadd_vec ''x'' (smul_vec (dt cfg) (add_vec (neg_vec x) (matvec S h))) s)))"

text \<open>\<open>S += dt * (-S + torch.outer(h, h) + psi)\<close>\<close>

definition iadd_S :: "config \<Rightarrow> store \<Rightarrow> error + store" where
  "iadd_S cfg s =
     ebind (get_mat ''S'' s) (\<lambda>S.
     ebind (get_vec ''h'' s) (\<lambda>h.
     ebind (get_mat ''psi'' s) (\<lambda>psi.
       iadd_mat ''S'' (smul_mat (dt cfg) (add_mat (add_mat (neg_mat S) (outer h h)) psi)) s)))"

text \<open>
  \<open>P += dt * (-P + (1 / N ** 3) *
          torch.einsum('im,jm,km,lm,kl->ij', etas, etas, etas, etas, psi) + g)\<close>
\<close>

definition iadd_P :: "config \<Rightarrow> store \<Rightarrow> error + store" where
  "iadd_P cfg s =
     ebind (get_mat ''P'' s) (\<lambda>P.
     ebind (py_div 1 (of_int (N cfg ^ 3))) (\<lambda>w.
     ebind (get_mat ''etas'' s) (\<lambda>etas.
     ebind (get_mat ''psi'' s) (\<lambda>psi.
     ebind (get_mat ''g'' s) (\<lambda>g.
       iadd_mat ''P''
         (smul_mat (dt cfg)
            (add_mat (add_mat (neg_mat P)
                        (smul_mat w (einsum_im_jm_km_lm_kl etas etas etas etas psi))) g)) s)))))"

definition euler_body :: "config \<Rightarrow> store \<Rightarrow> error + store" where
  "euler_body cfg = seq [assign_h cfg, assign_g cfg, assign_psi cfg, iadd_x cfg, iadd_S cfg, iadd_P cfg]"

text \<open>\<open>for _ in tqdm(range(NUM_STEPS))\<close>: the body runs \<open>nat NUM_STEPS\<close> times.\<close>

primrec euler_loop :: "config \<Rightarrow> nat \<Rightarrow> store \<Rightarrow> error + store" where
  "euler_loop cfg 0 s = Inr s"
| "euler_loop cfg (Suc n) s = ebind (euler_body cfg s) (euler_loop cfg n)"

text \<open>
  \<open>initial_distance = torch.norm(torch.sign(x0) - mem)\<close> and
  \<open>final_distance = torch.norm(torch.sign(h) - mem)\<close>
\<close>

definition sub_vec :: "vec \<Rightarrow> vec \<Rightarrow> vec" where
  "sub_vec u v = map2 (-) u v"

definition sign_vec :: "vec \<Rightarrow> vec" where
  "sign_vec v = map sgn v"

definition norm_vec :: "vec \<Rightarrow> real" where
  "norm_vec v = sqrt (sum_list (map (\<lambda>a. a * a) v))"

definition initial_distance :: "store \<Rightarrow> error + real" where
  "initial_distance s =
     ebind (get_vec ''x0'' s) (\<lambda>x0.
     ebind (get_vec ''mem'' s) (\<lambda>mem.
       Inr (norm_vec (sub_vec (sign_vec x0) mem))))"

definition final_distance :: "store \<Rightarrow> error + real" where
  "final_distance s =
     ebind (get_vec ''h'' s) (\<lambda>h.
     ebind (get_vec ''mem'' s) (\<lambda>mem.
       Inr (norm_vec (sub_vec (sign_vec h) mem))))"

text \<open>The whole cell, run in a fresh kernel; it yields the final store and the two distances.\<close>

definition simulation_cell ::
  "config \<Rightarrow> (nat \<Rightarrow> nat \<Rightarrow> nat) \<Rightarrow> (nat \<Rightarrow> real) \<Rightarrow> error + (store \<times> real \<times> real)" where
  "simulation_cell cfg bits u =
     ebind (init_cell cfg bits u empty_store) (\<lambda>s0.
     ebind (euler_loop cfg (nat (NUM_STEPS cfg)) s0) (\<lambda>s.
     ebind (initial_distance s) (\<lambda>d0.
     ebind (final_distance s) (\<lambda>d1.
       Inr (s, d0, d1)))))"

section \<open>The update rule as the specification states it\<close>

text \<open>
  One explicit Euler step on a triple of values: the three activation fields are computed
  from the triple, and all three right-hand sides use that one snapshot.
\<close>

definition snapshot_step :: "real \<Rightarrow> real \<Rightarrow> int \<Rightarrow> mat \<Rightarrow> vec \<times> mat \<times> mat \<Rightarrow> vec \<times> mat \<times> mat" where
  "snapshot_step b d n etas xSP =
     (case xSP of (x, S, P) \<Rightarrow>
        let h = tanh_vec (smul_vec b x);
            g = tanh_mat (smul_mat b S);
            psi = tanh_mat (smul_mat b P)
        in (add_vec x (smul_vec d (add_vec (neg_vec x) (matvec S h))),
            add_mat S (smul_mat d (add_mat (add_mat (neg_mat S) (outer h h)) psi)),
            add_mat P (smul_mat d (add_mat (add_mat (neg_mat P)
                         (smul_mat (1 / of_int (n ^ 3)) (einsum_im_jm_km_lm_kl etas etas etas etas psi)))
                         g))))"

text \<open>The name \<open>n\<close> is bound to the allocated object at address \<open>a\<close>, which holds \<open>t\<close>.\<close>

definition bound_at :: "store \<Rightarrow> string \<Rightarrow> addr \<Rightarrow> tensor \<Rightarrow> bool" where
  "bound_at s n a t \<longleftrightarrow> env s n = Some a \<and> a < fresh s \<and> heap s a = Some t"

text \<open>
  Frame of the integration loop: objects allocated before the loop other than those in \<open>A\<close>
  keep their contents, and only the names \<open>h\<close>, \<open>g\<close> and \<open>psi\<close> are rebound.
\<close>

definition unchanged_outside :: "addr set \<Rightarrow> store \<Rightarrow> store \<Rightarrow> bool" where
  "unchanged_outside A s s' \<longleftrightarrow>
     fresh s \<le> fresh s' \<and>
     (\<forall>a<fresh s. a \<notin> A \<longrightarrow> heap s' a = heap s a) \<and>
     (\<forall>n. n \<notin> {''h'', ''g'', ''psi''} \<longrightarrow> env s' n = env s n)"

text \<open>
  \<open>torch.atanh\<close> returns a finite number exactly on the open interval from \<open>-1\<close> to \<open>1\<close>; at
  \<open>-1\<close> and \<open>1\<close> it returns an infinity and beyond them NaN.  The real \<open>artanh\<close> used by
  \<open>atanh_mat\<close> stands for it on that interval only, so statements about values produced by
  \<open>atanh_mat\<close> carry the condition that every argument lies in it.
\<close>

definition atanh_defined :: "real \<Rightarrow> bool" where
  "atanh_defined a \<longleftrightarrow> - 1 < a \<and> a < 1"

definition atanh_defined_mat :: "mat \<Rightarrow> bool" where
  "atanh_defined_mat M \<longleftrightarrow> (\<forall>row\<in>set M. \<forall>a\<in>set row. atanh_defined a)"

text \<open>
  The tensor handed to \<open>torch.atanh\<close> in the statement that creates \<open>S0\<close>:
  \<open>-(1 / N ** 3) * torch.einsum('im,jm,km,lm,kl->ij', etas, etas, etas, etas, psi_0)\<close>.
\<close>

definition S0_argument :: "int \<Rightarrow> mat \<Rightarrow> mat \<Rightarrow> mat" where
  "S0_argument n etas psi_0 =
     smul_mat (- (1 / of_int (n ^ 3))) (einsum_im_jm_km_lm_kl etas etas etas etas psi_0)"

text \<open>
  \<open>-torch.outer(torch.tanh(beta * x0), torch.tanh(beta * x0))\<close> with the function that
  \<open>torch.tanh\<close> computes on the number format of the tensor as a parameter \<open>th\<close>: the exact
  \<open>tanh\<close> on the reals, while a floating-point \<open>tanh\<close> returns exactly \<open>1\<close> or \<open>-1\<close> on large
  arguments.  \<open>psi_0_of\<close> is the instance at the exact \<open>tanh\<close>.
\<close>

definition psi_0_with :: "(real \<Rightarrow> real) \<Rightarrow> real \<Rightarrow> vec \<Rightarrow> mat" where
  "psi_0_with th b x0 = neg_mat (outer (map th (smul_vec b x0)) (map th (smul_vec b x0)))"

text \<open>The parameter block of the notebook.\<close>

definition notebook_config :: config where
  "notebook_config =
     \<lparr>N = 500, K = 10, NUM_STEPS = 1000, dt = 1 / 20, beta = 5, corruption_level = 1 / 10,
      memory_to_seed_from = 2\<rparr>"

text \<open>Sample draws for concrete runs: every integer draw 0, every uniform draw 0.\<close>

definition zero_bits :: "nat \<Rightarrow> nat \<Rightarrow> nat" where
  "zero_bits i j = 0"

definition zero_draw :: "nat \<Rightarrow> real" where
  "zero_draw i = 0"

section \<open>Shapes and symmetry of the tensor operations\<close>

lemma is_mat_map_map: "is_mat n m M \<Longrightarrow> is_mat n m (map (map f) M)"
  by (simp add: is_mat_def)

lemma nth_map_map: "is_mat n m M \<Longrightarrow> i < n \<Longrightarrow> j < m \<Longrightarrow> map (map f) M ! i ! j = f (M ! i ! j)"
  by (simp add: is_mat_def)

lemma symmetric_map_map: "symmetric n M \<Longrightarrow> symmetric n (map (map f) M)"
  by (auto simp add: symmetric_def is_mat_map_map nth_map_map)

lemma smul_mat_map: "smul_mat c M = map (map (\<lambda>a. c * a)) M"
  by (simp add: smul_mat_def smul_vec_def)

lemma neg_mat_map: "neg_mat M = map (map uminus) M"
  by (simp add: neg_mat_def neg_vec_def)

lemma symmetric_smul_mat: "symmetric n M \<Longrightarrow> symmetric n (smul_mat c M)"
  by (simp add: smul_mat_map symmetric_map_map)

lemma symmetric_neg_mat: "symmetric n M \<Longrightarrow> symmetric n (neg_mat M)"
  by (simp add: neg_mat_map symmetric_map_map)

lemma symmetric_tanh_mat: "symmetric n M \<Longrightarrow> symmetric n (tanh_mat M)"
  by (simp add: tanh_mat_def symmetric_map_map)

lemma symmetric_atanh_mat: "symmetric n M \<Longrightarrow> symmetric n (atanh_mat M)"
  by (simp add: atanh_mat_def symmetric_map_map)

lemma is_mat_add_mat: "is_mat n m A \<Longrightarrow> is_mat n m B \<Longrightarrow> is_mat n m (add_mat A B)"
  by (simp add: is_mat_def add_mat_def add_vec_def)

lemma nth_add_mat:
  "is_mat n m A \<Longrightarrow> is_mat n m B \<Longrightarrow> i < n \<Longrightarrow> j < m \<Longrightarrow> add_mat A B ! i ! j = A ! i ! j + B ! i ! j"
  by (simp add: is_mat_def add_mat_def add_vec_def)

lemma symmetric_add_mat: "symmetric n A \<Longrightarrow> symmetric n B \<Longrightarrow> symmetric n (add_mat A B)"
  by (auto simp add: symmetric_def is_mat_add_mat nth_add_mat)

lemma is_mat_outer: "length u = n \<Longrightarrow> length v = m \<Longrightarrow> is_mat n m (outer u v)"
  by (simp add: is_mat_def outer_def)

lemma symmetric_outer: "length h = n \<Longrightarrow> symmetric n (outer h h)"
  by (simp add: symmetric_def is_mat_outer) (simp add: outer_def mult.commute)

lemma is_mat_einsum: "is_mat (length A) (length B) (einsum_im_jm_km_lm_kl A B C D E)"
  by (simp add: is_mat_def einsum_im_jm_km_lm_kl_def)

lemma symmetric_einsum:
  assumes "is_mat n k E"
  shows "symmetric n (einsum_im_jm_km_lm_kl E E E E psi)"
proof -
  have len: "length E = n" and row: "\<And>i. i < n \<Longrightarrow> length (E ! i) = k"
    using assms by (simp_all add: is_mat_def)
  have "is_mat n n (einsum_im_jm_km_lm_kl E E E E psi)"
    using is_mat_einsum [of E E E E psi] by (simp add: len)
  moreover have "einsum_im_jm_km_lm_kl E E E E psi ! i ! j = einsum_im_jm_km_lm_kl E E E E psi ! j ! i"
    if "i < n" "j < n" for i j
    using that by (simp add: einsum_im_jm_km_lm_kl_def len row mult.commute)
  ultimately show ?thesis by (simp add: symmetric_def)
qed

lemma length_tanh_smul: "length (tanh_vec (smul_vec b x)) = length x"
  by (simp add: tanh_vec_def smul_vec_def)

section \<open>One iteration and the whole loop on the store\<close>

lemmas stmt_defs = assign_h_def assign_g_def assign_psi_def iadd_x_def iadd_S_def iadd_P_def
  get_vec_def get_mat_def iadd_vec_def iadd_mat_def bind_name_def ebind_def py_div_def

lemma unchanged_outside_refl: "unchanged_outside A s s"
  by (simp add: unchanged_outside_def)

lemma unchanged_outside_trans:
  assumes "unchanged_outside A s s1" and "unchanged_outside A s1 s2"
  shows "unchanged_outside A s s2"
proof -
  have f1: "fresh s \<le> fresh s1" and f2: "fresh s1 \<le> fresh s2"
    using assms by (simp_all add: unchanged_outside_def)
  have "heap s2 a = heap s a" if "a < fresh s" "a \<notin> A" for a
  proof -
    have "a < fresh s1" using that f1 by simp
    then have "heap s2 a = heap s1 a" using assms(2) that by (simp add: unchanged_outside_def)
    also have "heap s1 a = heap s a" using assms(1) that by (simp add: unchanged_outside_def)
    finally show ?thesis .
  qed
  moreover have "env s2 n = env s n" if "n \<notin> {''h'', ''g'', ''psi''}" for n
    using assms that by (simp add: unchanged_outside_def)
  ultimately show ?thesis
    using f1 f2 by (simp add: unchanged_outside_def)
qed

lemma euler_body_store:
  assumes "bound_at s ''x'' ax (Vec x)" "bound_at s ''S'' aS (Mat S)" "bound_at s ''P'' aP (Mat P)"
    "bound_at s ''etas'' ae (Mat E)" "aS \<noteq> aP" "aS \<noteq> ae" "N cfg \<noteq> 0"
    "snapshot_step (beta cfg) (dt cfg) (N cfg) E (x, S, P) = (x', S', P')"
  shows "\<exists>s'. euler_body cfg s = Inr s' \<and>
     env s' = (env s)(''h'' \<mapsto> fresh s, ''g'' \<mapsto> Suc (fresh s), ''psi'' \<mapsto> Suc (Suc (fresh s))) \<and>
     fresh s' = Suc (Suc (Suc (fresh s))) \<and>
     heap s' = (heap s)(fresh s \<mapsto> Vec (tanh_vec (smul_vec (beta cfg) x)),
        Suc (fresh s) \<mapsto> Mat (tanh_mat (smul_mat (beta cfg) S)),
        Suc (Suc (fresh s)) \<mapsto> Mat (tanh_mat (smul_mat (beta cfg) P)),
        ax \<mapsto> Vec x', aS \<mapsto> Mat S', aP \<mapsto> Mat P')"
  using assms
  by (auto simp add: euler_body_def stmt_defs bound_at_def snapshot_step_def Let_def)

lemma euler_body_step:
  assumes "bound_at s ''x'' ax (Vec x)" "bound_at s ''S'' aS (Mat S)" "bound_at s ''P'' aP (Mat P)"
    "bound_at s ''etas'' ae (Mat E)" "aS \<noteq> aP" "aS \<noteq> ae" "aP \<noteq> ae" "N cfg \<noteq> 0"
    "snapshot_step (beta cfg) (dt cfg) (N cfg) E (x, S, P) = (x', S', P')"
  shows "\<exists>s'. euler_body cfg s = Inr s' \<and>
     bound_at s' ''x'' ax (Vec x') \<and> bound_at s' ''S'' aS (Mat S') \<and> bound_at s' ''P'' aP (Mat P') \<and>
     bound_at s' ''etas'' ae (Mat E) \<and>
     bound_at s' ''h'' (fresh s) (Vec (tanh_vec (smul_vec (beta cfg) x))) \<and>
     bound_at s' ''g'' (Suc (fresh s)) (Mat (tanh_mat (smul_mat (beta cfg) S))) \<and>
     bound_at s' ''psi'' (Suc (Suc (fresh s))) (Mat (tanh_mat (smul_mat (beta cfg) P))) \<and>
     unchanged_outside {ax, aS, aP} s s'"
proof -
  from euler_body_store [OF assms(1-6) assms(8-9)] obtain s' where
    r: "euler_body cfg s = Inr s'" and
    e: "env s' = (env s)(''h'' \<mapsto> fresh s, ''g'' \<mapsto> Suc (fresh s), ''psi'' \<mapsto> Suc (Suc (fresh s)))" and
    f: "fresh s' = Suc (Suc (Suc (fresh s)))" and
    h: "heap s' = (heap s)(fresh s \<mapsto> Vec (tanh_vec (smul_vec (beta cfg) x)),
        Suc (fresh s) \<mapsto> Mat (tanh_mat (smul_mat (beta cfg) S)),
        Suc (Suc (fresh s)) \<mapsto> Mat (tanh_mat (smul_mat (beta cfg) P)),
        ax \<mapsto> Vec x', aS \<mapsto> Mat S', aP \<mapsto> Mat P')"
    by blast
  have "bound_at s' ''x'' ax (Vec x')" "bound_at s' ''S'' aS (Mat S')" "bound_at s' ''P'' aP (Mat P')"
     "bound_at s' ''etas'' ae (Mat E)" "bound_at s' ''h'' (fresh s) (Vec (tanh_vec (smul_vec (beta cfg) x)))"
     "bound_at s' ''g'' (Suc (fresh s)) (Mat (tanh_mat (smul_mat (beta cfg) S)))"
     "bound_at s' ''psi'' (Suc (Suc (fresh s))) (Mat (tanh_mat (smul_mat (beta cfg) P)))"
    using assms(1-7) by (auto simp add: bound_at_def e f h)
  moreover have "unchanged_outside {ax, aS, aP} s s'"
    by (simp add: unchanged_outside_def e f h)
  ultimately show ?thesis using r by simp
qed

lemma euler_loop_steps:
  assumes "bound_at s ''x'' ax (Vec x)" "bound_at s ''S'' aS (Mat S)" "bound_at s ''P'' aP (Mat P)"
    "bound_at s ''etas'' ae (Mat E)" "aS \<noteq> aP" "aS \<noteq> ae" "aP \<noteq> ae" "N cfg \<noteq> 0"
    "(snapshot_step (beta cfg) (dt cfg) (N cfg) E ^^ n) (x, S, P) = (x', S', P')"
  shows "\<exists>s'. euler_loop cfg n s = Inr s' \<and>
     bound_at s' ''x'' ax (Vec x') \<and> bound_at s' ''S'' aS (Mat S') \<and> bound_at s' ''P'' aP (Mat P') \<and>
     bound_at s' ''etas'' ae (Mat E) \<and>
     (0 < n \<longrightarrow> (\<exists>a hv. bound_at s' ''h'' a (Vec hv))) \<and>
     unchanged_outside {ax, aS, aP} s s'"
  using assms
proof (induction n arbitrary: s x S P)
  case 0
  then show ?case by (simp add: unchanged_outside_refl)
next
  case (Suc n)
  obtain x1 S1 P1 where st: "snapshot_step (beta cfg) (dt cfg) (N cfg) E (x, S, P) = (x1, S1, P1)"
    by (cases "snapshot_step (beta cfg) (dt cfg) (N cfg) E (x, S, P)") auto
  from euler_body_step [OF Suc.prems(1-8) st] obtain s1 where
    b: "euler_body cfg s = Inr s1" and
    bx: "bound_at s1 ''x'' ax (Vec x1)" and bS: "bound_at s1 ''S'' aS (Mat S1)" and
    bP: "bound_at s1 ''P'' aP (Mat P1)" and be: "bound_at s1 ''etas'' ae (Mat E)" and
    bh: "bound_at s1 ''h'' (fresh s) (Vec (tanh_vec (smul_vec (beta cfg) x)))" and
    fr: "unchanged_outside {ax, aS, aP} s s1"
    by blast
  have rest: "(snapshot_step (beta cfg) (dt cfg) (N cfg) E ^^ n) (x1, S1, P1) = (x', S', P')"
    using Suc.prems(9) st by (simp only: funpow_Suc_right o_apply)
  from Suc.IH [OF bx bS bP be Suc.prems(5-8) rest] obtain s' where
    l: "euler_loop cfg n s1 = Inr s'" and
    cx: "bound_at s' ''x'' ax (Vec x')" and cS: "bound_at s' ''S'' aS (Mat S')" and
    cP: "bound_at s' ''P'' aP (Mat P')" and ce: "bound_at s' ''etas'' ae (Mat E)" and
    ch: "0 < n \<longrightarrow> (\<exists>a hv. bound_at s' ''h'' a (Vec hv))" and
    fr': "unchanged_outside {ax, aS, aP} s1 s'"
    by blast
  have run: "euler_loop cfg (Suc n) s = Inr s'"
    by (simp add: b l ebind_def)
  have h': "\<exists>a hv. bound_at s' ''h'' a (Vec hv)"
  proof (cases "n = 0")
    case True
    with l have "s' = s1" by simp
    with bh show ?thesis by blast
  next
    case False
    with ch show ?thesis by simp
  qed
  from run cx cS cP ce h' unchanged_outside_trans [OF fr fr'] show ?case
    by blast
qed

section \<open>The initial conditions\<close>

lemmas init_defs = init_cell_def assign_etas_def assign_mem_def assign_x0_def assign_psi_0_def
  assign_P0_def assign_S0_def clone_state_def get_vec_def get_mat_def bind_name_def ebind_def
  py_div_def empty_store_def

lemma init_cell_store:
  fixes cfg bits u r mem cv
  defines "E \<equiv> sub_scalar_mat (smul_mat 2 r) 1"
    and "x0 \<equiv> mul_vec mem cv"
  defines "psi0 \<equiv> psi_0_of (beta cfg) x0"
  defines "P0 \<equiv> smul_mat (1 / beta cfg) (atanh_mat psi0)"
    and "S0 \<equiv> smul_mat (1 / beta cfg) (atanh_mat
                 (smul_mat (- (1 / of_int (N cfg ^ 3))) (einsum_im_jm_km_lm_kl E E E E psi0)))"
  assumes "randint (N cfg) (K cfg) bits = Inr r"
    and "select_column (K cfg) E (memory_to_seed_from cfg) = Inr mem"
    and "generate_corruption_vector (N cfg) (corruption_level cfg) u = Inr cv"
    and "beta cfg \<noteq> 0" and "N cfg \<noteq> 0"
  shows "init_cell cfg bits u empty_store =
     Inr \<lparr>heap = (\<lambda>_. None)(0 \<mapsto> Mat E, 1 \<mapsto> Vec mem, 2 \<mapsto> Vec x0, 3 \<mapsto> Mat psi0, 4 \<mapsto> Mat P0,
                     5 \<mapsto> Mat S0, 6 \<mapsto> Vec x0, 7 \<mapsto> Mat S0, 8 \<mapsto> Mat P0),
          env = (\<lambda>_. None)(''etas'' \<mapsto> 0, ''mem'' \<mapsto> 1, ''x0'' \<mapsto> 2, ''psi_0'' \<mapsto> 3, ''P0'' \<mapsto> 4,
                     ''S0'' \<mapsto> 5, ''x'' \<mapsto> 6, ''S'' \<mapsto> 7, ''P'' \<mapsto> 8),
          fresh = 9\<rparr>"
  using assms(6-) unfolding S0_def P0_def psi0_def x0_def E_def
  by (simp add: init_defs eval_nat_numeral)


lemma randint_ok:
  "0 \<le> n \<Longrightarrow> 0 \<le> k \<Longrightarrow> \<exists>r. randint n k bits = Inr r \<and> is_mat (nat n) (nat k) r"
  by (simp add: randint_def is_mat_def)

lemma select_column_ok:
  "- k \<le> idx \<Longrightarrow> idx < k \<Longrightarrow> \<exists>col. select_column k M idx = Inr col \<and> length col = length M"
  by (simp add: select_column_def Let_def)

lemma generate_corruption_vector_ok:
  "0 \<le> len \<Longrightarrow> \<exists>cv. generate_corruption_vector len c u = Inr cv \<and> length cv = nat len"
  by (simp add: generate_corruption_vector_def rand_def ebind_def)

lemma is_mat_etas: "is_mat n k r \<Longrightarrow> is_mat n k (sub_scalar_mat (smul_mat 2 r) 1)"
  by (simp add: sub_scalar_mat_def smul_mat_map is_mat_map_map)

lemma symmetric_psi_0_of: "length x0 = n \<Longrightarrow> symmetric n (psi_0_of b x0)"
  by (simp add: psi_0_of_def symmetric_neg_mat symmetric_outer length_tanh_smul)

lemma init_cell_RuntimeError:
  "N cfg < 0 \<or> K cfg < 0 \<Longrightarrow> init_cell cfg bits u s = Inl RuntimeError"
  by (auto simp add: init_cell_def assign_etas_def randint_def ebind_def)

lemma init_cell_IndexError:
  "0 \<le> N cfg \<Longrightarrow> 0 \<le> K cfg \<Longrightarrow>
   memory_to_seed_from cfg < - K cfg \<or> K cfg \<le> memory_to_seed_from cfg \<Longrightarrow>
   init_cell cfg bits u s = Inl IndexError"
  by (auto simp add: init_cell_def assign_etas_def assign_mem_def randint_def select_column_def
        get_mat_def bind_name_def ebind_def Let_def)

lemma init_cell_ZeroDivisionError:
  assumes "0 \<le> N cfg" "0 \<le> K cfg" "- K cfg \<le> memory_to_seed_from cfg"
    "memory_to_seed_from cfg < K cfg" "beta cfg = 0 \<or> N cfg = 0"
  shows "init_cell cfg bits u s = Inl ZeroDivisionError"
proof -
  obtain r where r: "randint (N cfg) (K cfg) bits = Inr r"
    using randint_ok [OF assms(1,2)] by blast
  obtain col where c: "select_column (K cfg) (sub_scalar_mat (smul_mat 2 r) 1) (memory_to_seed_from cfg) = Inr col"
    using select_column_ok [OF assms(3,4)] by blast
  obtain cv where v: "generate_corruption_vector (N cfg) (corruption_level cfg) u = Inr cv"
    using generate_corruption_vector_ok [OF assms(1)] by blast
  show ?thesis
    using assms(5)
    by (auto simp add: init_cell_def assign_etas_def assign_mem_def assign_x0_def assign_psi_0_def
        assign_P0_def assign_S0_def get_vec_def get_mat_def bind_name_def ebind_def py_div_def r c v)
qed


lemma init_cell_ok:
  assumes "0 < N cfg" "- K cfg \<le> memory_to_seed_from cfg" "memory_to_seed_from cfg < K cfg"
    "beta cfg \<noteq> 0"
  shows "\<exists>s0 E mem x0 psi0 P0 S0.
     init_cell cfg bits u empty_store = Inr s0 \<and>
     bound_at s0 ''etas'' 0 (Mat E) \<and> bound_at s0 ''mem'' 1 (Vec mem) \<and>
     bound_at s0 ''x0'' 2 (Vec x0) \<and> bound_at s0 ''psi_0'' 3 (Mat psi0) \<and>
     bound_at s0 ''P0'' 4 (Mat P0) \<and> bound_at s0 ''S0'' 5 (Mat S0) \<and>
     bound_at s0 ''x'' 6 (Vec x0) \<and> bound_at s0 ''S'' 7 (Mat S0) \<and> bound_at s0 ''P'' 8 (Mat P0) \<and>
     env s0 ''h'' = None \<and>
     is_mat (nat (N cfg)) (nat (K cfg)) E \<and> length mem = nat (N cfg) \<and> length x0 = nat (N cfg) \<and>
     symmetric (nat (N cfg)) P0 \<and> symmetric (nat (N cfg)) S0"
proof -
  have n0: "0 \<le> N cfg" and k0: "0 \<le> K cfg" and nz: "N cfg \<noteq> 0"
    using assms by simp_all
  obtain r where r: "randint (N cfg) (K cfg) bits = Inr r" and rs: "is_mat (nat (N cfg)) (nat (K cfg)) r"
    using randint_ok [OF n0 k0] by blast
  define E where "E = sub_scalar_mat (smul_mat 2 r) 1"
  have Es: "is_mat (nat (N cfg)) (nat (K cfg)) E"
    unfolding E_def using rs by (rule is_mat_etas)
  obtain mem where c: "select_column (K cfg) E (memory_to_seed_from cfg) = Inr mem"
    and cl: "length mem = length E"
    using select_column_ok [OF assms(2,3)] by blast
  obtain cv where v: "generate_corruption_vector (N cfg) (corruption_level cfg) u = Inr cv"
    and vl: "length cv = nat (N cfg)"
    using generate_corruption_vector_ok [OF n0] by blast
  have ml: "length mem = nat (N cfg)"
    using cl Es by (simp add: is_mat_def)
  define x0 where "x0 = mul_vec mem cv"
  have xl: "length x0 = nat (N cfg)"
    by (simp add: x0_def mul_vec_def ml vl)
  define psi0 where "psi0 = psi_0_of (beta cfg) x0"
  define P0 where "P0 = smul_mat (1 / beta cfg) (atanh_mat psi0)"
  define S0 where "S0 = smul_mat (1 / beta cfg) (atanh_mat
                 (smul_mat (- (1 / of_int (N cfg ^ 3))) (einsum_im_jm_km_lm_kl E E E E psi0)))"
  have Psym: "symmetric (nat (N cfg)) P0"
    unfolding P0_def psi0_def
    by (intro symmetric_smul_mat symmetric_atanh_mat symmetric_psi_0_of xl)
  have Ssym: "symmetric (nat (N cfg)) S0"
    unfolding S0_def
    by (intro symmetric_smul_mat symmetric_atanh_mat symmetric_einsum [OF Es])
  let ?s0 = "\<lparr>heap = (\<lambda>_. None)(0 \<mapsto> Mat E, 1 \<mapsto> Vec mem, 2 \<mapsto> Vec x0, 3 \<mapsto> Mat psi0, 4 \<mapsto> Mat P0,
                     5 \<mapsto> Mat S0, 6 \<mapsto> Vec x0, 7 \<mapsto> Mat S0, 8 \<mapsto> Mat P0),
          env = (\<lambda>_. None)(''etas'' \<mapsto> 0, ''mem'' \<mapsto> 1, ''x0'' \<mapsto> 2, ''psi_0'' \<mapsto> 3, ''P0'' \<mapsto> 4,
                     ''S0'' \<mapsto> 5, ''x'' \<mapsto> 6, ''S'' \<mapsto> 7, ''P'' \<mapsto> 8),
          fresh = 9\<rparr>"
  have run: "init_cell cfg bits u empty_store = Inr ?s0"
    unfolding S0_def P0_def psi0_def x0_def E_def
    by (rule init_cell_store [OF r c [unfolded E_def] v assms(4) nz])
  have b: "bound_at ?s0 ''etas'' 0 (Mat E)" "bound_at ?s0 ''mem'' 1 (Vec mem)"
     "bound_at ?s0 ''x0'' 2 (Vec x0)" "bound_at ?s0 ''psi_0'' 3 (Mat psi0)"
     "bound_at ?s0 ''P0'' 4 (Mat P0)" "bound_at ?s0 ''S0'' 5 (Mat S0)"
     "bound_at ?s0 ''x'' 6 (Vec x0)" "bound_at ?s0 ''S'' 7 (Mat S0)" "bound_at ?s0 ''P'' 8 (Mat P0)"
     "env ?s0 ''h'' = None"
    by (simp_all add: bound_at_def)
  from run b Es ml xl Psym Ssym show ?thesis
    by blast
qed

lemma tanh_artanh_real:
  fixes x :: real
  assumes "- 1 < x" "x < 1"
  shows "tanh (artanh x) = x"
proof -
  have pos: "0 < (1 + x) / (1 - x)"
    using assms by simp
  have "exp (- 2 * artanh x) = inverse (exp (ln ((1 + x) / (1 - x))))"
    by (simp add: artanh_def exp_minus)
  also have "\<dots> = (1 - x) / (1 + x)"
    using pos by (simp add: exp_ln)
  finally have e: "exp (- 2 * artanh x) = (1 - x) / (1 + x)" .
  have "tanh (artanh x) = (1 - (1 - x) / (1 + x)) / (1 + (1 - x) / (1 + x))"
    by (simp only: tanh_real_altdef e)
  also have "\<dots> = x"
    using assms by (simp add: field_simps)
  finally show ?thesis .
qed

lemma length_euler_x:
  "length x = n \<Longrightarrow> length S = n \<Longrightarrow>
   length (add_vec x (smul_vec d (add_vec (neg_vec x) (matvec S h)))) = n"
  by (simp add: add_vec_def smul_vec_def neg_vec_def matvec_def)

lemma snapshot_step_symmetric:
  assumes "length x = n" "symmetric n S" "symmetric n P" "is_mat n k E"
    and "snapshot_step b d m E (x, S, P) = (x', S', P')"
  shows "length x' = n \<and> symmetric n S' \<and> symmetric n P'"
proof -
  have lS: "length S = n"
    using assms(2) by (simp add: symmetric_def is_mat_def)
  have x': "x' = add_vec x (smul_vec d (add_vec (neg_vec x) (matvec S (tanh_vec (smul_vec b x)))))"
    and S': "S' = add_mat S (smul_mat d (add_mat (add_mat (neg_mat S)
                    (outer (tanh_vec (smul_vec b x)) (tanh_vec (smul_vec b x))))
                    (tanh_mat (smul_mat b P))))"
    and P': "P' = add_mat P (smul_mat d (add_mat (add_mat (neg_mat P)
                    (smul_mat (1 / of_int (m ^ 3))
                       (einsum_im_jm_km_lm_kl E E E E (tanh_mat (smul_mat b P)))))
                    (tanh_mat (smul_mat b S))))"
    using assms(5) by (simp_all add: snapshot_step_def Let_def)
  have "length x' = n"
    unfolding x' using assms(1) lS by (rule length_euler_x)
  moreover have "symmetric n S'"
    unfolding S'
    by (intro symmetric_add_mat symmetric_smul_mat symmetric_neg_mat symmetric_tanh_mat
          symmetric_outer assms(2,3)) (simp add: length_tanh_smul assms(1))
  moreover have "symmetric n P'"
    unfolding P'
    by (intro symmetric_add_mat symmetric_smul_mat symmetric_neg_mat symmetric_tanh_mat
          symmetric_einsum [OF assms(4)] assms(2,3))
  ultimately show ?thesis by simp
qed

lemma snapshot_steps_symmetric:
  assumes "length x = n" "symmetric n S" "symmetric n P" "is_mat n k E"
    and "(snapshot_step b d m E ^^ t) (x, S, P) = (x', S', P')"
  shows "length x' = n \<and> symmetric n S' \<and> symmetric n P'"
  using assms
proof (induction t arbitrary: x' S' P')
  case 0
  then show ?case by simp
next
  case (Suc t)
  obtain x1 S1 P1 where mid: "(snapshot_step b d m E ^^ t) (x, S, P) = (x1, S1, P1)"
    by (cases "(snapshot_step b d m E ^^ t) (x, S, P)") auto
  have inv: "length x1 = n \<and> symmetric n S1 \<and> symmetric n P1"
    using Suc.IH [OF Suc.prems(1-4) mid] .
  have last: "snapshot_step b d m E (x1, S1, P1) = (x', S', P')"
    using Suc.prems(5) mid by simp
  show ?case
    using snapshot_step_symmetric [OF _ _ _ Suc.prems(4) last] inv by blast
qed

lemma get_vec_bound: "bound_at s n a (Vec v) \<Longrightarrow> get_vec n s = Inr v"
  by (simp add: bound_at_def get_vec_def)

lemma get_mat_bound: "bound_at s n a (Mat M) \<Longrightarrow> get_mat n s = Inr M"
  by (simp add: bound_at_def get_mat_def)

lemma run_after_init:
  assumes "0 < N cfg" "- K cfg \<le> memory_to_seed_from cfg" "memory_to_seed_from cfg < K cfg"
    "beta cfg \<noteq> 0"
  shows "\<exists>s0 s E mem x0 P0 S0 x S P.
     init_cell cfg bits u empty_store = Inr s0 \<and> euler_loop cfg n s0 = Inr s \<and>
     bound_at s0 ''x0'' 2 (Vec x0) \<and> bound_at s0 ''P0'' 4 (Mat P0) \<and> bound_at s0 ''S0'' 5 (Mat S0) \<and>
     bound_at s0 ''mem'' 1 (Vec mem) \<and>
     bound_at s0 ''x'' 6 (Vec x0) \<and> bound_at s0 ''S'' 7 (Mat S0) \<and> bound_at s0 ''P'' 8 (Mat P0) \<and>
     env s0 ''h'' = None \<and>
     bound_at s ''x0'' 2 (Vec x0) \<and> bound_at s ''P0'' 4 (Mat P0) \<and> bound_at s ''S0'' 5 (Mat S0) \<and>
     bound_at s ''mem'' 1 (Vec mem) \<and>
     bound_at s ''x'' 6 (Vec x) \<and> bound_at s ''S'' 7 (Mat S) \<and> bound_at s ''P'' 8 (Mat P) \<and>
     bound_at s ''etas'' 0 (Mat E) \<and>
     (0 < n \<longrightarrow> (\<exists>a hv. bound_at s ''h'' a (Vec hv))) \<and>
     (snapshot_step (beta cfg) (dt cfg) (N cfg) E ^^ n) (x0, S0, P0) = (x, S, P) \<and>
     is_mat (nat (N cfg)) (nat (K cfg)) E \<and> length x0 = nat (N cfg) \<and>
     symmetric (nat (N cfg)) P0 \<and> symmetric (nat (N cfg)) S0"
proof -
  from init_cell_ok [OF assms, of bits u] obtain s0 E mem x0 psi0 P0 S0 where
    i: "init_cell cfg bits u empty_store = Inr s0" and
    be: "bound_at s0 ''etas'' 0 (Mat E)" and bm: "bound_at s0 ''mem'' 1 (Vec mem)" and
    bx0: "bound_at s0 ''x0'' 2 (Vec x0)" and bP0: "bound_at s0 ''P0'' 4 (Mat P0)" and
    bS0: "bound_at s0 ''S0'' 5 (Mat S0)" and
    bx: "bound_at s0 ''x'' 6 (Vec x0)" and bS: "bound_at s0 ''S'' 7 (Mat S0)" and
    bP: "bound_at s0 ''P'' 8 (Mat P0)" and nh: "env s0 ''h'' = None" and
    sh: "is_mat (nat (N cfg)) (nat (K cfg)) E" "length x0 = nat (N cfg)"
        "symmetric (nat (N cfg)) P0" "symmetric (nat (N cfg)) S0"
    by blast
  obtain x S P where st: "(snapshot_step (beta cfg) (dt cfg) (N cfg) E ^^ n) (x0, S0, P0) = (x, S, P)"
    by (cases "(snapshot_step (beta cfg) (dt cfg) (N cfg) E ^^ n) (x0, S0, P0)") auto
  have nz: "N cfg \<noteq> 0" using assms(1) by simp
  have d: "(7::nat) \<noteq> 8" "(7::nat) \<noteq> 0" "(8::nat) \<noteq> 0" by simp_all
  from euler_loop_steps [OF bx bS bP be d nz st] obtain s where
    l: "euler_loop cfg n s0 = Inr s" and
    cx: "bound_at s ''x'' 6 (Vec x)" and cS: "bound_at s ''S'' 7 (Mat S)" and
    cP: "bound_at s ''P'' 8 (Mat P)" and ce: "bound_at s ''etas'' 0 (Mat E)" and
    ch: "0 < n \<longrightarrow> (\<exists>a hv. bound_at s ''h'' a (Vec hv))" and
    fr: "unchanged_outside {6, 7, 8} s0 s"
    by blast
  have keep: "bound_at s nm a t" if "bound_at s0 nm a t" "a \<notin> {6, 7, 8}" "nm \<notin> {''h'', ''g'', ''psi''}"
    for nm a t
    using that fr by (auto simp add: bound_at_def unchanged_outside_def)
  have k: "bound_at s ''x0'' 2 (Vec x0)" "bound_at s ''P0'' 4 (Mat P0)" "bound_at s ''S0'' 5 (Mat S0)"
    "bound_at s ''mem'' 1 (Vec mem)"
    using keep [OF bx0] keep [OF bP0] keep [OF bS0] keep [OF bm] by simp_all
  from i l bx0 bP0 bS0 bm bx bS bP nh k cx cS cP ce ch st sh show ?thesis
    by blast
qed

lemma simulation_cell_init_error:
  "init_cell cfg bits u empty_store = Inl e \<Longrightarrow> simulation_cell cfg bits u = Inl e"
  by (simp add: simulation_cell_def ebind_def)

lemma simulation_cell_NameError:
  assumes "0 < N cfg" "- K cfg \<le> memory_to_seed_from cfg" "memory_to_seed_from cfg < K cfg"
    "beta cfg \<noteq> 0" "NUM_STEPS cfg \<le> 0"
  shows "simulation_cell cfg bits u = Inl NameError"
proof -
  from run_after_init [OF assms(1-4), of bits u 0] obtain s0 mem x0 where
    i: "init_cell cfg bits u empty_store = Inr s0" and
    bx0: "bound_at s0 ''x0'' 2 (Vec x0)" and bm: "bound_at s0 ''mem'' 1 (Vec mem)" and
    nh: "env s0 ''h'' = None"
    by blast
  have n0: "nat (NUM_STEPS cfg) = 0"
    using assms(5) by simp
  have d: "initial_distance s0 = Inr (norm_vec (sub_vec (sign_vec x0) mem))"
    by (simp add: initial_distance_def get_vec_bound [OF bx0] get_vec_bound [OF bm] ebind_def)
  have f: "final_distance s0 = Inl NameError"
    by (simp add: final_distance_def get_vec_def nh ebind_def)
  show ?thesis
    by (simp add: simulation_cell_def i n0 d f ebind_def)
qed

lemma simulation_cell_ok:
  assumes "0 < N cfg" "- K cfg \<le> memory_to_seed_from cfg" "memory_to_seed_from cfg < K cfg"
    "beta cfg \<noteq> 0" "0 < NUM_STEPS cfg"
  shows "\<exists>r. simulation_cell cfg bits u = Inr r"
proof -
  have pos: "0 < nat (NUM_STEPS cfg)"
    using assms(5) by simp
  from run_after_init [OF assms(1-4), of bits u "nat (NUM_STEPS cfg)"] pos obtain s0 s mem x0 a hv where
    i: "init_cell cfg bits u empty_store = Inr s0" and
    l: "euler_loop cfg (nat (NUM_STEPS cfg)) s0 = Inr s" and
    bx0: "bound_at s ''x0'' 2 (Vec x0)" and bm: "bound_at s ''mem'' 1 (Vec mem)" and
    bh: "bound_at s ''h'' a (Vec hv)"
    by blast
  have d: "initial_distance s = Inr (norm_vec (sub_vec (sign_vec x0) mem))"
    by (simp add: initial_distance_def get_vec_bound [OF bx0] get_vec_bound [OF bm] ebind_def)
  have f: "final_distance s = Inr (norm_vec (sub_vec (sign_vec hv) mem))"
    by (simp add: final_distance_def get_vec_bound [OF bh] get_vec_bound [OF bm] ebind_def)
  show ?thesis
    by (simp add: simulation_cell_def i l d f ebind_def)
qed

section \<open>Contraction\<close>

lemma einsum_term_factor:
  fixes a b :: real
  shows "(\<Sum>k<n. \<Sum>l<n. a * b * c k * d l * e k l) = a * b * (\<Sum>k<n. \<Sum>l<n. c k * e k l * d l)"
  by (simp add: sum_distrib_left mult_ac)

text \<open>
  C2: for every \<open>N \<times> K\<close> matrix \<open>etas\<close> and every \<open>N \<times> N\<close> matrix \<open>psi\<close>, the naive four-index
  contraction computed by the einsum equals the factorised form built from the per-memory
  scalars \<open>v m\<close>.
\<close>

theorem einsum_eq_Contract_factorized:
  assumes "is_mat n k etas" and "is_mat n n psi"
  shows "einsum_im_jm_km_lm_kl etas etas etas etas psi = Contract_factorized n k etas psi"
proof -
  have len: "length etas = n" and row: "\<And>i. i < n \<Longrightarrow> length (etas ! i) = k"
    using assms(1) by (simp_all add: is_mat_def)
  show ?thesis
    unfolding einsum_im_jm_km_lm_kl_def Contract_factorized_def quadratic_form_column_def len
    by (rule map_cong [OF refl]) (simp add: row einsum_term_factor)
qed

theorem einsum_eq_Contract_factorized_witness:
  "is_mat 2 1 [[1], [-1]] \<and> is_mat 2 2 [[0, 3], [5, 0]] \<and>
   einsum_im_jm_km_lm_kl [[1], [-1]] [[1], [-1]] [[1], [-1]] [[1], [-1]] [[0, 3], [5, 0]]
     = Contract_factorized 2 1 [[1], [-1]] [[0, 3], [5, 0]]"
proof -
  have a: "is_mat 2 1 [[1], [-1]]"
    by (simp add: is_mat_def less_Suc_eq numeral_2_eq_2)
  have b: "is_mat 2 2 [[0, 3], [5, 0]]"
    by (simp add: is_mat_def less_Suc_eq numeral_2_eq_2)
  show ?thesis
    using a b einsum_eq_Contract_factorized [OF a b] by simp
qed

section \<open>The integration loop\<close>

text \<open>
  C1: one iteration of the integration loop, run on a store in which \<open>x\<close>, \<open>S\<close>, \<open>P\<close> and
  \<open>etas\<close> are bound to separate objects, first binds \<open>h\<close>, \<open>g\<close> and \<open>psi\<close> to the activations
  of the current \<open>x\<close>, \<open>S\<close> and \<open>P\<close>, and leaves in \<open>x\<close>, \<open>S\<close> and \<open>P\<close> exactly the explicit
  Euler updates whose right-hand sides are all evaluated on the values held before the
  iteration: the in-place update of \<open>x\<close> does not reach the update of \<open>S\<close> or \<open>P\<close>, and the
  in-place update of \<open>S\<close> does not reach the update of \<open>P\<close>.
\<close>

theorem euler_body_uses_snapshot:
  assumes "bound_at s ''x'' ax (Vec x)" and "bound_at s ''S'' aS (Mat S)"
    and "bound_at s ''P'' aP (Mat P)" and "bound_at s ''etas'' ae (Mat etas)"
    and "aS \<noteq> aP" and "aS \<noteq> ae" and "N cfg \<noteq> 0"
  shows "\<exists>s'. euler_body cfg s = Inr s' \<and>
    (let h = tanh_vec (smul_vec (beta cfg) x);
         g = tanh_mat (smul_mat (beta cfg) S);
         psi = tanh_mat (smul_mat (beta cfg) P)
     in get_vec ''h'' s' = Inr h \<and> get_mat ''g'' s' = Inr g \<and> get_mat ''psi'' s' = Inr psi \<and>
        get_vec ''x'' s' = Inr (add_vec x (smul_vec (dt cfg) (add_vec (neg_vec x) (matvec S h)))) \<and>
        get_mat ''S'' s' =
          Inr (add_mat S (smul_mat (dt cfg) (add_mat (add_mat (neg_mat S) (outer h h)) psi))) \<and>
        get_mat ''P'' s' =
          Inr (add_mat P (smul_mat (dt cfg)
                 (add_mat (add_mat (neg_mat P)
                    (smul_mat (1 / of_int (N cfg ^ 3))
                       (einsum_im_jm_km_lm_kl etas etas etas etas psi))) g))))"
proof -
  obtain x' S' P' where st:
    "snapshot_step (beta cfg) (dt cfg) (N cfg) etas (x, S, P) = (x', S', P')"
    by (cases "snapshot_step (beta cfg) (dt cfg) (N cfg) etas (x, S, P)") auto
  from euler_body_store [OF assms st] obtain s' where
    r: "euler_body cfg s = Inr s'" and
    e: "env s' = (env s)(''h'' \<mapsto> fresh s, ''g'' \<mapsto> Suc (fresh s), ''psi'' \<mapsto> Suc (Suc (fresh s)))" and
    h: "heap s' = (heap s)(fresh s \<mapsto> Vec (tanh_vec (smul_vec (beta cfg) x)),
        Suc (fresh s) \<mapsto> Mat (tanh_mat (smul_mat (beta cfg) S)),
        Suc (Suc (fresh s)) \<mapsto> Mat (tanh_mat (smul_mat (beta cfg) P)),
        ax \<mapsto> Vec x', aS \<mapsto> Mat S', aP \<mapsto> Mat P')"
    by blast
  have vals: "get_vec ''h'' s' = Inr (tanh_vec (smul_vec (beta cfg) x))"
    "get_mat ''g'' s' = Inr (tanh_mat (smul_mat (beta cfg) S))"
    "get_mat ''psi'' s' = Inr (tanh_mat (smul_mat (beta cfg) P))"
    "get_vec ''x'' s' = Inr x'" "get_mat ''S'' s' = Inr S'" "get_mat ''P'' s' = Inr P'"
    using assms(1-6) by (auto simp add: get_vec_def get_mat_def bound_at_def e h)
  show ?thesis
    using r vals st by (auto simp add: snapshot_step_def Let_def)
qed

theorem euler_body_uses_snapshot_witness:
  "\<exists>s'. euler_body \<lparr>N = 1, K = 1, NUM_STEPS = 1, dt = 1 / 2, beta = 1, corruption_level = 0,
                     memory_to_seed_from = 0\<rparr>
           \<lparr>heap = (\<lambda>_. None)(0 \<mapsto> Vec [0], 1 \<mapsto> Mat [[2]], 2 \<mapsto> Mat [[0]], 3 \<mapsto> Mat [[1]]),
            env = (\<lambda>_. None)(''x'' \<mapsto> 0, ''S'' \<mapsto> 1, ''P'' \<mapsto> 2, ''etas'' \<mapsto> 3),
            fresh = 4\<rparr> = Inr s' \<and>
        get_vec ''h'' s' = Inr [0] \<and> get_vec ''x'' s' = Inr [0] \<and>
        get_mat ''S'' s' = Inr [[1]] \<and> get_mat ''P'' s' = Inr [[tanh 2 / 2]]"
proof -
  let ?cfg = "\<lparr>N = 1, K = 1, NUM_STEPS = 1, dt = 1 / 2, beta = 1, corruption_level = 0,
               memory_to_seed_from = 0\<rparr>"
  let ?s = "\<lparr>heap = (\<lambda>_. None)(0 \<mapsto> Vec [0], 1 \<mapsto> Mat [[2]], 2 \<mapsto> Mat [[0]], 3 \<mapsto> Mat [[1::real]]),
            env = (\<lambda>_. None)(''x'' \<mapsto> 0, ''S'' \<mapsto> 1, ''P'' \<mapsto> 2, ''etas'' \<mapsto> 3),
            fresh = 4\<rparr>"
  have b: "bound_at ?s ''x'' 0 (Vec [0])" "bound_at ?s ''S'' 1 (Mat [[2]])"
    "bound_at ?s ''P'' 2 (Mat [[0]])" "bound_at ?s ''etas'' 3 (Mat [[1]])"
    by (simp_all add: bound_at_def)
  have d: "(1::nat) \<noteq> 2" "(1::nat) \<noteq> 3" "N ?cfg \<noteq> 0"
    by simp_all
  show ?thesis
    using euler_body_uses_snapshot [OF b d]
    by (auto simp add: Let_def tanh_vec_def tanh_mat_def smul_vec_def smul_mat_def add_vec_def
          add_mat_def neg_vec_def neg_mat_def matvec_def outer_def einsum_im_jm_km_lm_kl_def)
qed

text \<open>
  C6: with \<open>NUM_STEPS = 0\<close> the loop body is never run; the store after the loop is the
  store before it, in which \<open>x\<close>, \<open>S\<close> and \<open>P\<close> hold the values of \<open>x0\<close>, \<open>S0\<close> and \<open>P0\<close>.
\<close>

theorem zero_steps_returns_initial_triple:
  assumes "NUM_STEPS cfg = 0"
    and "0 < N cfg" and "- K cfg \<le> memory_to_seed_from cfg"
    and "memory_to_seed_from cfg < K cfg" and "beta cfg \<noteq> 0"
  shows "\<exists>s0 x0 S0 P0.
     init_cell cfg bits u empty_store = Inr s0 \<and>
     euler_loop cfg (nat (NUM_STEPS cfg)) s0 = Inr s0 \<and>
     get_vec ''x0'' s0 = Inr x0 \<and> get_mat ''S0'' s0 = Inr S0 \<and> get_mat ''P0'' s0 = Inr P0 \<and>
     get_vec ''x'' s0 = Inr x0 \<and> get_mat ''S'' s0 = Inr S0 \<and> get_mat ''P'' s0 = Inr P0"
proof -
  from init_cell_ok [OF assms(2-5), of bits u] obtain s0 x0 P0 S0 where
    i: "init_cell cfg bits u empty_store = Inr s0" and
    b: "bound_at s0 ''x0'' 2 (Vec x0)" "bound_at s0 ''P0'' 4 (Mat P0)"
       "bound_at s0 ''S0'' 5 (Mat S0)" "bound_at s0 ''x'' 6 (Vec x0)"
       "bound_at s0 ''S'' 7 (Mat S0)" "bound_at s0 ''P'' 8 (Mat P0)"
    by blast
  have "euler_loop cfg (nat (NUM_STEPS cfg)) s0 = Inr s0"
    by (simp add: assms(1))
  with i get_vec_bound [OF b(1)] get_mat_bound [OF b(2)] get_mat_bound [OF b(3)]
    get_vec_bound [OF b(4)] get_mat_bound [OF b(5)] get_mat_bound [OF b(6)]
  show ?thesis by blast
qed

theorem zero_steps_returns_initial_triple_witness:
  "\<exists>s0 x0 S0 P0.
     init_cell \<lparr>N = 1, K = 1, NUM_STEPS = 0, dt = 1 / 2, beta = 1, corruption_level = 0,
                 memory_to_seed_from = 0\<rparr> (\<lambda>i j. 0) (\<lambda>i. 0) empty_store = Inr s0 \<and>
     euler_loop \<lparr>N = 1, K = 1, NUM_STEPS = 0, dt = 1 / 2, beta = 1, corruption_level = 0,
                  memory_to_seed_from = 0\<rparr> 0 s0 = Inr s0 \<and>
     get_vec ''x0'' s0 = Inr x0 \<and> get_mat ''S0'' s0 = Inr S0 \<and> get_mat ''P0'' s0 = Inr P0 \<and>
     get_vec ''x'' s0 = Inr x0 \<and> get_mat ''S'' s0 = Inr S0 \<and> get_mat ''P'' s0 = Inr P0"
proof -
  let ?cfg = "\<lparr>N = 1, K = 1, NUM_STEPS = 0, dt = 1 / 2, beta = 1, corruption_level = 0,
               memory_to_seed_from = 0\<rparr>"
  have h: "NUM_STEPS ?cfg = 0" "0 < N ?cfg" "- K ?cfg \<le> memory_to_seed_from ?cfg"
    "memory_to_seed_from ?cfg < K ?cfg" "beta ?cfg \<noteq> 0"
    by simp_all
  have z: "nat (NUM_STEPS ?cfg) = 0"
    by simp
  show ?thesis
    using zero_steps_returns_initial_triple [OF h, of "\<lambda>i j. 0" "\<lambda>i. 0"]
    unfolding z by blast
qed

text \<open>
  C10: the loop works on clones.  After any number \<open>t\<close> of iterations the names \<open>x0\<close>,
  \<open>S0\<close> and \<open>P0\<close> are bound to objects other than those of \<open>x\<close>, \<open>S\<close> and \<open>P\<close> and still
  hold their initial values, so the initial distance computed after the loop is the one of
  the initial seed.
\<close>

theorem loop_keeps_initial_conditions:
  assumes "0 < N cfg" and "- K cfg \<le> memory_to_seed_from cfg"
    and "memory_to_seed_from cfg < K cfg" and "beta cfg \<noteq> 0"
  shows "\<exists>s0 st x0 S0 P0 d.
     init_cell cfg bits u empty_store = Inr s0 \<and> euler_loop cfg t s0 = Inr st \<and>
     get_vec ''x0'' s0 = Inr x0 \<and> get_mat ''S0'' s0 = Inr S0 \<and> get_mat ''P0'' s0 = Inr P0 \<and>
     get_vec ''x0'' st = Inr x0 \<and> get_mat ''S0'' st = Inr S0 \<and> get_mat ''P0'' st = Inr P0 \<and>
     env st ''x0'' \<noteq> env st ''x'' \<and> env st ''S0'' \<noteq> env st ''S'' \<and>
     env st ''P0'' \<noteq> env st ''P'' \<and>
     initial_distance s0 = Inr d \<and> initial_distance st = Inr d"
proof -
  from run_after_init [OF assms, of bits u t] obtain s0 st mem x0 P0 S0 x S P where
    i: "init_cell cfg bits u empty_store = Inr s0" and l: "euler_loop cfg t s0 = Inr st" and
    b0: "bound_at s0 ''x0'' 2 (Vec x0)" "bound_at s0 ''P0'' 4 (Mat P0)"
        "bound_at s0 ''S0'' 5 (Mat S0)" "bound_at s0 ''mem'' 1 (Vec mem)" and
    bt: "bound_at st ''x0'' 2 (Vec x0)" "bound_at st ''P0'' 4 (Mat P0)"
        "bound_at st ''S0'' 5 (Mat S0)" "bound_at st ''mem'' 1 (Vec mem)" and
    ct: "bound_at st ''x'' 6 (Vec x)" "bound_at st ''S'' 7 (Mat S)" "bound_at st ''P'' 8 (Mat P)"
    by blast
  have apart: "env st ''x0'' \<noteq> env st ''x''" "env st ''S0'' \<noteq> env st ''S''"
    "env st ''P0'' \<noteq> env st ''P''"
    using bt ct by (simp_all add: bound_at_def)
  have d0: "initial_distance s0 = Inr (norm_vec (sub_vec (sign_vec x0) mem))"
    by (simp add: initial_distance_def get_vec_bound [OF b0(1)] get_vec_bound [OF b0(4)] ebind_def)
  have dt: "initial_distance st = Inr (norm_vec (sub_vec (sign_vec x0) mem))"
    by (simp add: initial_distance_def get_vec_bound [OF bt(1)] get_vec_bound [OF bt(4)] ebind_def)
  from i l apart d0 dt get_vec_bound [OF b0(1)] get_mat_bound [OF b0(2)] get_mat_bound [OF b0(3)]
    get_vec_bound [OF bt(1)] get_mat_bound [OF bt(2)] get_mat_bound [OF bt(3)]
  show ?thesis by blast
qed

theorem loop_keeps_initial_conditions_witness:
  "\<exists>s0 st x0 S0 P0 d.
     init_cell \<lparr>N = 1, K = 1, NUM_STEPS = 3, dt = 1 / 2, beta = 1, corruption_level = 0,
                 memory_to_seed_from = 0\<rparr> (\<lambda>i j. 0) (\<lambda>i. 0) empty_store = Inr s0 \<and>
     euler_loop \<lparr>N = 1, K = 1, NUM_STEPS = 3, dt = 1 / 2, beta = 1, corruption_level = 0,
                  memory_to_seed_from = 0\<rparr> 3 s0 = Inr st \<and>
     get_vec ''x0'' s0 = Inr x0 \<and> get_mat ''S0'' s0 = Inr S0 \<and> get_mat ''P0'' s0 = Inr P0 \<and>
     get_vec ''x0'' st = Inr x0 \<and> get_mat ''S0'' st = Inr S0 \<and> get_mat ''P0'' st = Inr P0 \<and>
     env st ''x0'' \<noteq> env st ''x'' \<and> env st ''S0'' \<noteq> env st ''S'' \<and>
     env st ''P0'' \<noteq> env st ''P'' \<and>
     initial_distance s0 = Inr d \<and> initial_distance st = Inr d"
proof -
  let ?cfg = "\<lparr>N = 1, K = 1, NUM_STEPS = 3, dt = 1 / 2, beta = 1, corruption_level = 0,
               memory_to_seed_from = 0\<rparr>"
  have h: "0 < N ?cfg" "- K ?cfg \<le> memory_to_seed_from ?cfg"
    "memory_to_seed_from ?cfg < K ?cfg" "beta ?cfg \<noteq> 0"
    by simp_all
  show ?thesis
    using loop_keeps_initial_conditions [OF h, of "\<lambda>i j. 0" "\<lambda>i. 0" 3] .
qed

section \<open>Outcome of the whole cell\<close>

text \<open>
  C7, as the code has it: the cell has no validation step.  Started in a fresh kernel it
  raises RuntimeError at the generation of the memory bank when \<open>N\<close> or \<open>K\<close> is negative,
  IndexError at the selection of the memory column when \<open>memory_to_seed_from\<close> is outside
  \<open>-K \<le> i < K\<close>, ZeroDivisionError in the initial-condition statements when \<open>beta\<close> or \<open>N\<close>
  is zero, and NameError at the final distance (after the initial conditions) when
  \<open>NUM_STEPS \<le> 0\<close>; in every other configuration, whatever \<open>dt\<close> and \<open>corruption_level\<close>
  are, it runs to completion.
\<close>

theorem simulation_cell_outcome:
  "(N cfg < 0 \<or> K cfg < 0 \<longrightarrow> simulation_cell cfg bits u = Inl RuntimeError) \<and>
   (0 \<le> N cfg \<and> 0 \<le> K cfg \<and>
      (memory_to_seed_from cfg < - K cfg \<or> K cfg \<le> memory_to_seed_from cfg) \<longrightarrow>
        simulation_cell cfg bits u = Inl IndexError) \<and>
   (0 \<le> N cfg \<and> - K cfg \<le> memory_to_seed_from cfg \<and> memory_to_seed_from cfg < K cfg \<and>
      (beta cfg = 0 \<or> N cfg = 0) \<longrightarrow>
        simulation_cell cfg bits u = Inl ZeroDivisionError) \<and>
   (0 < N cfg \<and> - K cfg \<le> memory_to_seed_from cfg \<and> memory_to_seed_from cfg < K cfg \<and>
      beta cfg \<noteq> 0 \<and> NUM_STEPS cfg \<le> 0 \<longrightarrow>
        simulation_cell cfg bits u = Inl NameError) \<and>
   (0 < N cfg \<and> - K cfg \<le> memory_to_seed_from cfg \<and> memory_to_seed_from cfg < K cfg \<and>
      beta cfg \<noteq> 0 \<and> 0 < NUM_STEPS cfg \<longrightarrow>
        (\<exists>r. simulation_cell cfg bits u = Inr r))"
proof (intro conjI impI)
  assume "N cfg < 0 \<or> K cfg < 0"
  then show "simulation_cell cfg bits u = Inl RuntimeError"
    by (intro simulation_cell_init_error init_cell_RuntimeError)
next
  assume "0 \<le> N cfg \<and> 0 \<le> K cfg \<and>
      (memory_to_seed_from cfg < - K cfg \<or> K cfg \<le> memory_to_seed_from cfg)"
  then show "simulation_cell cfg bits u = Inl IndexError"
    by (intro simulation_cell_init_error init_cell_IndexError) simp_all
next
  assume "0 \<le> N cfg \<and> - K cfg \<le> memory_to_seed_from cfg \<and> memory_to_seed_from cfg < K cfg \<and>
      (beta cfg = 0 \<or> N cfg = 0)"
  then show "simulation_cell cfg bits u = Inl ZeroDivisionError"
    by (intro simulation_cell_init_error init_cell_ZeroDivisionError) simp_all
next
  assume "0 < N cfg \<and> - K cfg \<le> memory_to_seed_from cfg \<and> memory_to_seed_from cfg < K cfg \<and>
      beta cfg \<noteq> 0 \<and> NUM_STEPS cfg \<le> 0"
  then show "simulation_cell cfg bits u = Inl NameError"
    by (intro simulation_cell_NameError) simp_all
next
  assume "0 < N cfg \<and> - K cfg \<le> memory_to_seed_from cfg \<and> memory_to_seed_from cfg < K cfg \<and>
      beta cfg \<noteq> 0 \<and> 0 < NUM_STEPS cfg"
  then show "\<exists>r. simulation_cell cfg bits u = Inr r"
    by (intro simulation_cell_ok) simp_all
qed

theorem simulation_cell_outcome_witness:
  "simulation_cell \<lparr>N = - 1, K = 10, NUM_STEPS = 1000, dt = 1 / 20, beta = 5,
       corruption_level = 1 / 10, memory_to_seed_from = 2\<rparr> zero_bits zero_draw = Inl RuntimeError \<and>
   simulation_cell \<lparr>N = 500, K = 10, NUM_STEPS = 1000, dt = 1 / 20, beta = 5,
       corruption_level = 1 / 10, memory_to_seed_from = 10\<rparr> zero_bits zero_draw = Inl IndexError \<and>
   simulation_cell \<lparr>N = 500, K = 10, NUM_STEPS = 1000, dt = 1 / 20, beta = 0,
       corruption_level = 1 / 10, memory_to_seed_from = 2\<rparr> zero_bits zero_draw
     = Inl ZeroDivisionError \<and>
   simulation_cell \<lparr>N = 500, K = 10, NUM_STEPS = 0, dt = 1 / 20, beta = 5,
       corruption_level = 1 / 10, memory_to_seed_from = 2\<rparr> zero_bits zero_draw = Inl NameError \<and>
   (\<exists>r. simulation_cell \<lparr>N = 500, K = 10, NUM_STEPS = 1000, dt = 1 / 20, beta = 5,
       corruption_level = 3, memory_to_seed_from = - 1\<rparr> zero_bits zero_draw = Inr r)"
  using
    simulation_cell_outcome [of "\<lparr>N = - 1, K = 10, NUM_STEPS = 1000, dt = 1 / 20, beta = 5,
       corruption_level = 1 / 10, memory_to_seed_from = 2\<rparr>" zero_bits zero_draw]
    simulation_cell_outcome [of "\<lparr>N = 500, K = 10, NUM_STEPS = 1000, dt = 1 / 20, beta = 5,
       corruption_level = 1 / 10, memory_to_seed_from = 10\<rparr>" zero_bits zero_draw]
    simulation_cell_outcome [of "\<lparr>N = 500, K = 10, NUM_STEPS = 1000, dt = 1 / 20, beta = 0,
       corruption_level = 1 / 10, memory_to_seed_from = 2\<rparr>" zero_bits zero_draw]
    simulation_cell_outcome [of "\<lparr>N = 500, K = 10, NUM_STEPS = 0, dt = 1 / 20, beta = 5,
       corruption_level = 1 / 10, memory_to_seed_from = 2\<rparr>" zero_bits zero_draw]
    simulation_cell_outcome [of "\<lparr>N = 500, K = 10, NUM_STEPS = 1000, dt = 1 / 20, beta = 5,
       corruption_level = 3, memory_to_seed_from = - 1\<rparr>" zero_bits zero_draw]
  by simp

text \<open>The parameters of the notebook with the step size negated: the cell completes.\<close>

theorem negative_dt_accepted:
  "\<not> isl (simulation_cell \<lparr>N = 500, K = 10, NUM_STEPS = 1000, dt = - (1 / 20), beta = 5,
       corruption_level = 1 / 10, memory_to_seed_from = 2\<rparr> zero_bits zero_draw)"
proof -
  let ?cfg = "\<lparr>N = 500, K = 10, NUM_STEPS = 1000, dt = - (1 / 20), beta = 5,
       corruption_level = 1 / 10, memory_to_seed_from = 2\<rparr>"
  have "\<exists>r. simulation_cell ?cfg zero_bits zero_draw = Inr r"
    by (rule simulation_cell_ok) simp_all
  then show ?thesis by auto
qed

section \<open>The random field generator and the initial-condition solver\<close>

lemma nth_etas:
  assumes "is_mat n k r" "i < n" "j < k"
  shows "sub_scalar_mat (smul_mat 2 r) 1 ! i ! j = 2 * r ! i ! j - 1"
  using assms by (simp add: sub_scalar_mat_def smul_mat_def smul_vec_def is_mat_def)

text \<open>
  C9: for positive \<open>N\<close> and \<open>K\<close> and integer draws in \<open>{0, 1}\<close>, the statement that creates
  the memory bank binds \<open>etas\<close> to an \<open>N \<times> K\<close> matrix whose every entry is \<open>1\<close> or \<open>-1\<close>.
\<close>

theorem etas_entries_plus_minus_one:
  assumes "0 < N cfg" and "0 < K cfg" and "\<forall>i j. bits i j < 2"
  shows "\<exists>s' etas. assign_etas cfg bits s = Inr s' \<and> get_mat ''etas'' s' = Inr etas \<and>
     is_mat (nat (N cfg)) (nat (K cfg)) etas \<and>
     (\<forall>i<nat (N cfg). \<forall>j<nat (K cfg). etas ! i ! j = 1 \<or> etas ! i ! j = - 1)"
proof -
  let ?r = "map (\<lambda>i. map (\<lambda>j. real (bits i j)) [0..<nat (K cfg)]) [0..<nat (N cfg)]"
  let ?E = "sub_scalar_mat (smul_mat 2 ?r) 1"
  have r: "randint (N cfg) (K cfg) bits = Inr ?r"
    using assms(1,2) by (simp add: randint_def)
  have rs: "is_mat (nat (N cfg)) (nat (K cfg)) ?r"
    by (simp add: is_mat_def)
  have run: "assign_etas cfg bits s = Inr (bind_name ''etas'' (Mat ?E) s)"
    by (simp add: assign_etas_def r ebind_def)
  have get: "get_mat ''etas'' (bind_name ''etas'' (Mat ?E) s) = Inr ?E"
    by (simp add: get_mat_def bind_name_def)
  have ent: "?E ! i ! j = 1 \<or> ?E ! i ! j = - 1" if "i < nat (N cfg)" "j < nat (K cfg)" for i j
  proof -
    have "bits i j < 2"
      using assms(3) by simp
    then have b: "bits i j = 0 \<or> bits i j = 1"
      by (simp add: less_2_cases_iff)
    have "?r ! i ! j = real (bits i j)"
      using that by simp
    then have e: "?E ! i ! j = 2 * real (bits i j) - 1"
      using nth_etas [OF rs that] by simp
    from b show ?thesis
      unfolding e by auto
  qed
  from run get is_mat_etas [OF rs] ent show ?thesis
    by blast
qed

theorem etas_entries_plus_minus_one_witness:
  "\<exists>s' etas. assign_etas \<lparr>N = 500, K = 10, NUM_STEPS = 1000, dt = 1 / 20, beta = 5,
       corruption_level = 1 / 10, memory_to_seed_from = 2\<rparr> zero_bits empty_store = Inr s' \<and>
     get_mat ''etas'' s' = Inr etas \<and> is_mat 500 10 etas \<and>
     (\<forall>i<500. \<forall>j<10. etas ! i ! j = 1 \<or> etas ! i ! j = - 1)"
proof -
  let ?cfg = "\<lparr>N = 500, K = 10, NUM_STEPS = 1000, dt = 1 / 20, beta = 5,
       corruption_level = 1 / 10, memory_to_seed_from = 2\<rparr>"
  have h: "0 < N ?cfg" "0 < K ?cfg" "\<forall>i j. zero_bits i j < 2"
    by (simp_all add: zero_bits_def)
  have n: "nat (N ?cfg) = 500" "nat (K ?cfg) = 10"
    by simp_all
  show ?thesis
    using etas_entries_plus_minus_one [OF h, of empty_store] unfolding n .
qed

lemma tanh_unit_entry:
  fixes a b :: real
  assumes "a = 1 \<or> a = - 1"
  shows "tanh (b * a) = a * tanh b"
  using assms by auto

lemma nth_psi_0_of:
  assumes "i < length x0" "j < length x0"
  shows "psi_0_of b x0 ! i ! j = - (tanh (b * x0 ! i) * tanh (b * x0 ! j))"
  using assms
  by (simp add: psi_0_of_def neg_mat_def neg_vec_def outer_def tanh_vec_def smul_vec_def)

lemma is_mat_psi_0_of: "is_mat (length x0) (length x0) (psi_0_of b x0)"
  using symmetric_psi_0_of [OF refl, of x0 b] by (simp add: symmetric_def)

lemma tanh_sq_less_1: "(tanh (b::real))\<^sup>2 < 1"
  using tanh_real_lt_1 [of b] tanh_real_gt_neg1 [of b] by (simp add: abs_square_less_1 abs_if)

lemma psi_0_of_unit_entries:
  assumes "\<forall>a\<in>set x0. a = 1 \<or> a = - 1" "i < length x0" "j < length x0"
  shows "\<bar>psi_0_of b x0 ! i ! j\<bar> = (tanh b)\<^sup>2"
proof -
  have ui: "x0 ! i = 1 \<or> x0 ! i = - 1" and uj: "x0 ! j = 1 \<or> x0 ! j = - 1"
    using assms by simp_all
  have "psi_0_of b x0 ! i ! j = - (x0 ! i * x0 ! j) * (tanh b * tanh b)"
    by (simp add: nth_psi_0_of [OF assms(2,3)] tanh_unit_entry [OF ui] tanh_unit_entry [OF uj])
  moreover have "\<bar>x0 ! i * x0 ! j\<bar> = 1"
    using ui uj by auto
  ultimately show ?thesis
    by (simp add: abs_mult power2_eq_square)
qed

lemma psi_0_of_unit_diagonal:
  assumes "\<forall>a\<in>set x0. a = 1 \<or> a = - 1" "i < length x0"
  shows "psi_0_of b x0 ! i ! i = - (tanh b)\<^sup>2"
proof -
  have ui: "x0 ! i = 1 \<or> x0 ! i = - 1"
    using assms by simp
  have "psi_0_of b x0 ! i ! i = - (x0 ! i * x0 ! i) * (tanh b * tanh b)"
    by (simp add: nth_psi_0_of [OF assms(2,2)] tanh_unit_entry [OF ui])
  moreover have "x0 ! i * x0 ! i = 1"
    using ui by auto
  ultimately show ?thesis
    by (simp add: power2_eq_square)
qed

lemma nth_P0:
  assumes "is_mat n m psi0" "i < n" "j < m"
  shows "smul_mat c (atanh_mat psi0) ! i ! j = c * artanh (psi0 ! i ! j)"
  using assms by (simp add: smul_mat_def smul_vec_def atanh_mat_def is_mat_def)

text \<open>At the gain of the notebook the diagonal of \<open>psi_0\<close> is not \<open>-1\<close>.\<close>

theorem psi_0_diagonal_not_minus_one: "psi_0_of 5 [1, - 1] ! 0 ! 0 \<noteq> - 1"
proof -
  have "psi_0_of 5 [1, - 1] ! 0 ! 0 = - (tanh 5)\<^sup>2"
    by (rule psi_0_of_unit_diagonal) simp_all
  then show ?thesis
    using tanh_sq_less_1 [of 5] by simp
qed

lemma generate_corruption_vector_value:
  "0 \<le> len \<Longrightarrow>
   generate_corruption_vector len c u =
     Inr (map (\<lambda>i. if u i \<le> 1 - c then 1 else - 1) [0..<nat len])"
  by (simp add: generate_corruption_vector_def rand_def ebind_def comp_def)

lemma mul_vec_ones: "length mem = n \<Longrightarrow> mul_vec mem (replicate n 1) = mem"
  by (induction mem arbitrary: n) (auto simp add: mul_vec_def)

text \<open>
  C4, as the code has it: each entry of the corruption vector is \<open>1\<close> if its uniform draw
  \<open>u\<close> satisfies \<open>u \<le> 1 - corruption\<close> and \<open>-1\<close> otherwise.  With \<open>corruption = 0\<close> the vector
  is all \<open>1\<close> and \<open>x0\<close> is bound to the value of \<open>mem\<close>.  With \<open>corruption = 1\<close> an entry is
  \<open>-1\<close> exactly when its draw is nonzero; an entry whose draw is \<open>0\<close> is \<open>1\<close>.
\<close>

theorem corruption_vector_threshold:
  assumes "0 \<le> N cfg" and "\<forall>i. 0 \<le> u i \<and> u i < 1"
    and "get_vec ''mem'' s = Inr mem" and "length mem = nat (N cfg)"
  shows "\<exists>cv s'.
     generate_corruption_vector (N cfg) (corruption_level cfg) u = Inr cv \<and>
     length cv = nat (N cfg) \<and>
     (\<forall>i<nat (N cfg). cv ! i = (if u i \<le> 1 - corruption_level cfg then 1 else - 1)) \<and>
     assign_x0 cfg u s = Inr s' \<and> get_vec ''x0'' s' = Inr (mul_vec mem cv) \<and>
     (corruption_level cfg = 0 \<longrightarrow>
        cv = replicate (nat (N cfg)) 1 \<and> get_vec ''x0'' s' = Inr mem) \<and>
     (corruption_level cfg = 1 \<longrightarrow>
        (\<forall>i<nat (N cfg). cv ! i = (if u i = 0 then 1 else - 1)))"
proof -
  let ?cv = "map (\<lambda>i. if u i \<le> 1 - corruption_level cfg then 1 else - 1) [0..<nat (N cfg)]"
  let ?s' = "bind_name ''x0'' (Vec (mul_vec mem ?cv)) s"
  have gen: "generate_corruption_vector (N cfg) (corruption_level cfg) u = Inr ?cv"
    by (rule generate_corruption_vector_value [OF assms(1)])
  have len: "length ?cv = nat (N cfg)"
    by simp
  have ent: "\<forall>i<nat (N cfg). ?cv ! i = (if u i \<le> 1 - corruption_level cfg then 1 else - 1)"
    by simp
  have run: "assign_x0 cfg u s = Inr ?s'"
    by (simp add: assign_x0_def assms(3) gen ebind_def)
  have get: "get_vec ''x0'' ?s' = Inr (mul_vec mem ?cv)"
    by (simp add: get_vec_def bind_name_def)
  have zero: "?cv = replicate (nat (N cfg)) 1 \<and> get_vec ''x0'' ?s' = Inr mem"
    if c: "corruption_level cfg = 0"
  proof -
    have "?cv = map (\<lambda>i. 1) [0..<nat (N cfg)]"
      using assms(2) by (simp add: c less_imp_le)
    then have ones: "?cv = replicate (nat (N cfg)) 1"
      by (simp add: map_replicate_const)
    have "mul_vec mem ?cv = mem"
      unfolding ones by (rule mul_vec_ones [OF assms(4)])
    with get ones show ?thesis by simp
  qed
  have one: "\<forall>i<nat (N cfg). ?cv ! i = (if u i = 0 then 1 else - 1)"
    if c: "corruption_level cfg = 1"
  proof (intro allI impI)
    fix i assume i: "i < nat (N cfg)"
    have "u i \<le> 0 \<longleftrightarrow> u i = 0"
      using assms(2) by (simp add: antisym)
    then show "?cv ! i = (if u i = 0 then 1 else - 1)"
      using i by (simp add: c)
  qed
  from gen len ent run get zero one show ?thesis
    by blast
qed

theorem corruption_vector_threshold_witness:
  "\<exists>cv s'.
     generate_corruption_vector 2 0 zero_draw = Inr cv \<and> length cv = 2 \<and>
     (\<forall>i<2. cv ! i = (if zero_draw i \<le> 1 - 0 then 1 else - 1)) \<and>
     assign_x0 \<lparr>N = 2, K = 1, NUM_STEPS = 1, dt = 1 / 20, beta = 5, corruption_level = 0,
                 memory_to_seed_from = 0\<rparr> zero_draw
       (bind_name ''mem'' (Vec [1, - 1]) empty_store) = Inr s' \<and>
     get_vec ''x0'' s' = Inr (mul_vec [1, - 1] cv) \<and>
     cv = replicate 2 1 \<and> get_vec ''x0'' s' = Inr [1, - 1]"
proof -
  let ?cfg = "\<lparr>N = 2, K = 1, NUM_STEPS = 1, dt = 1 / 20, beta = 5, corruption_level = 0,
               memory_to_seed_from = 0\<rparr>"
  have h: "0 \<le> N ?cfg" "\<forall>i. 0 \<le> zero_draw i \<and> zero_draw i < 1"
    "get_vec ''mem'' (bind_name ''mem'' (Vec [1, - 1]) empty_store) = Inr [1, - 1]"
    "length [1, - 1 :: real] = nat (N ?cfg)"
    by (simp_all add: zero_draw_def get_vec_def bind_name_def empty_store_def)
  have n: "nat (N ?cfg) = 2" "N ?cfg = 2" "corruption_level ?cfg = 0"
    by simp_all
  show ?thesis
    using corruption_vector_threshold [OF h] unfolding n by simp
qed

text \<open>With \<open>corruption = 1\<close> and a draw of exactly \<open>0\<close> the entry is \<open>1\<close>, not \<open>-1\<close>.\<close>

theorem full_corruption_not_all_minus_one:
  "0 \<le> zero_draw 0 \<and> zero_draw 0 < 1 \<and>
   generate_corruption_vector 1 1 zero_draw = Inr [1] \<and>
   generate_corruption_vector 1 1 zero_draw \<noteq> Inr [- 1]"
  by (simp add: generate_corruption_vector_value zero_draw_def)

lemma ratio_lower:
  fixes x :: real
  assumes "0 < x" "x \<le> 1 / 11"
  shows "5 / 6 \<le> (1 - x) / (1 + x)"
proof -
  have "11 * x \<le> 1"
    using assms(2) by simp
  then have "5 * (1 + x) \<le> 6 * (1 - x)"
    by simp
  then have "5 / 6 * (1 + x) \<le> 1 - x"
    by simp
  then show ?thesis
    using assms by (simp add: pos_le_divide_eq)
qed

lemma tanh_5_lower: "5 / 6 \<le> tanh (5::real)"
proof -
  have "1 + (10::real) \<le> exp 10"
    by (rule exp_ge_add_one_self)
  then have e: "exp (- 10 :: real) \<le> 1 / 11"
    by (simp add: exp_minus inverse_eq_divide field_simps)
  have "5 / 6 \<le> (1 - exp (- 10 :: real)) / (1 + exp (- 10))"
    by (rule ratio_lower [OF _ e]) simp
  also have "(1 - exp (- 10 :: real)) / (1 + exp (- 10)) = tanh 5"
    by (simp add: tanh_real_altdef)
  finally show ?thesis .
qed

lemma two_tanh_5_sq: "1 < 2 * (tanh (5::real))\<^sup>2"
proof -
  have "(5 / 6 :: real)\<^sup>2 \<le> (tanh 5)\<^sup>2"
    using tanh_5_lower by (intro power_mono) simp_all
  then show ?thesis
    by (simp add: power2_eq_square)
qed

lemma abs_sum_le_bound:
  fixes f :: "nat \<Rightarrow> real"
  assumes "\<And>i. i < n \<Longrightarrow> \<bar>f i\<bar> \<le> c"
  shows "\<bar>\<Sum>i<n. f i\<bar> \<le> real n * c"
proof -
  have "\<bar>\<Sum>i<n. f i\<bar> \<le> (\<Sum>i<n. \<bar>f i\<bar>)"
    by (rule sum_abs)
  also have "\<dots> \<le> of_nat (card {..<n}) * c"
    by (rule sum_bounded_above) (simp add: assms)
  finally show ?thesis by simp
qed

lemma abs_triple_sum_le:
  fixes f :: "nat \<Rightarrow> nat \<Rightarrow> nat \<Rightarrow> real"
  assumes "\<And>m k l. m < p \<Longrightarrow> k < n \<Longrightarrow> l < n \<Longrightarrow> \<bar>f m k l\<bar> \<le> c"
  shows "\<bar>\<Sum>m<p. \<Sum>k<n. \<Sum>l<n. f m k l\<bar> \<le> real p * (real n * (real n * c))"
  by (intro abs_sum_le_bound assms)

lemma select_column_value:
  assumes "- k \<le> idx" "idx < k"
  shows "\<exists>j<nat k. select_column k M idx = Inr (map (\<lambda>row. row ! j) M)"
proof (cases "idx < 0")
  case True
  then have "nat (idx + k) < nat k" using assms by simp
  moreover have "select_column k M idx = Inr (map (\<lambda>row. row ! nat (idx + k)) M)"
    using True assms by (simp add: select_column_def Let_def)
  ultimately show ?thesis by blast
next
  case False
  then have "nat idx < nat k" using assms by simp
  moreover have "select_column k M idx = Inr (map (\<lambda>row. row ! nat idx) M)"
    using False assms by (simp add: select_column_def Let_def)
  ultimately show ?thesis by blast
qed

lemma etas_unit_entries:
  assumes "\<forall>i j. bits i j < 2" "i < nat n" "j < nat k"
  shows "\<bar>sub_scalar_mat (smul_mat 2 (map (\<lambda>i. map (\<lambda>j. real (bits i j)) [0..<nat k]) [0..<nat n])) 1
            ! i ! j\<bar> = 1"
proof -
  let ?r = "map (\<lambda>i. map (\<lambda>j. real (bits i j)) [0..<nat k]) [0..<nat n]"
  have rs: "is_mat (nat n) (nat k) ?r"
    by (simp add: is_mat_def)
  have "bits i j < 2"
    using assms(1) by simp
  then have b: "bits i j = 0 \<or> bits i j = 1"
    by (simp add: less_2_cases_iff)
  have "?r ! i ! j = real (bits i j)"
    using assms(2,3) by simp
  then have e: "sub_scalar_mat (smul_mat 2 ?r) 1 ! i ! j = 2 * real (bits i j) - 1"
    using nth_etas [OF rs assms(2,3)] by simp
  from b show ?thesis
    unfolding e by auto
qed

lemma mul_vec_unit_entries:
  assumes "length mem = n" "length cv = n" "\<forall>i<n. \<bar>mem ! i\<bar> = 1" "\<forall>i<n. cv ! i = 1 \<or> cv ! i = - 1"
  shows "\<forall>a\<in>set (mul_vec mem cv). a = 1 \<or> a = - 1"
proof
  fix a assume "a \<in> set (mul_vec mem cv)"
  then obtain i where i: "i < n" and a: "a = mem ! i * cv ! i"
    using assms(1,2) by (auto simp add: mul_vec_def in_set_conv_nth)
  have "mem ! i = 1 \<or> mem ! i = - 1"
    using assms(3) i by (auto simp add: abs_if split: if_splits)
  moreover have "cv ! i = 1 \<or> cv ! i = - 1"
    using assms(4) i by simp
  ultimately show "a = 1 \<or> a = - 1"
    unfolding a by auto
qed

lemma init_cell_detail:
  assumes "0 < N cfg" "- K cfg \<le> memory_to_seed_from cfg" "memory_to_seed_from cfg < K cfg"
    "beta cfg \<noteq> 0"
  shows "\<exists>s0 etas mem x0.
     init_cell cfg bits u empty_store = Inr s0 \<and>
     bound_at s0 ''etas'' 0 (Mat etas) \<and> bound_at s0 ''mem'' 1 (Vec mem) \<and>
     bound_at s0 ''x0'' 2 (Vec x0) \<and> bound_at s0 ''psi_0'' 3 (Mat (psi_0_of (beta cfg) x0)) \<and>
     bound_at s0 ''P0'' 4 (Mat (smul_mat (1 / beta cfg) (atanh_mat (psi_0_of (beta cfg) x0)))) \<and>
     bound_at s0 ''S0'' 5 (Mat (smul_mat (1 / beta cfg)
        (atanh_mat (S0_argument (N cfg) etas (psi_0_of (beta cfg) x0))))) \<and>
     bound_at s0 ''x'' 6 (Vec x0) \<and>
     bound_at s0 ''S'' 7 (Mat (smul_mat (1 / beta cfg)
        (atanh_mat (S0_argument (N cfg) etas (psi_0_of (beta cfg) x0))))) \<and>
     bound_at s0 ''P'' 8 (Mat (smul_mat (1 / beta cfg) (atanh_mat (psi_0_of (beta cfg) x0)))) \<and>
     is_mat (nat (N cfg)) (nat (K cfg)) etas \<and> length x0 = nat (N cfg) \<and>
     ((\<forall>i j. bits i j < 2) \<longrightarrow>
        (\<forall>i<nat (N cfg). \<forall>j<nat (K cfg). \<bar>etas ! i ! j\<bar> = 1) \<and>
        (\<forall>a\<in>set x0. a = 1 \<or> a = - 1))"
proof -
  have n0: "0 \<le> N cfg" and k0: "0 \<le> K cfg" and nz: "N cfg \<noteq> 0"
    using assms by simp_all
  let ?r = "map (\<lambda>i. map (\<lambda>j. real (bits i j)) [0..<nat (K cfg)]) [0..<nat (N cfg)]"
  have r: "randint (N cfg) (K cfg) bits = Inr ?r"
    using n0 k0 by (simp add: randint_def)
  have rs: "is_mat (nat (N cfg)) (nat (K cfg)) ?r"
    by (simp add: is_mat_def)
  define E where "E = sub_scalar_mat (smul_mat 2 ?r) 1"
  have Es: "is_mat (nat (N cfg)) (nat (K cfg)) E"
    unfolding E_def using rs by (rule is_mat_etas)
  have El: "length E = nat (N cfg)"
    using Es by (simp add: is_mat_def)
  obtain j where j: "j < nat (K cfg)"
    and c: "select_column (K cfg) E (memory_to_seed_from cfg) = Inr (map (\<lambda>row. row ! j) E)"
    using select_column_value [OF assms(2,3)] by blast
  define mem where "mem = map (\<lambda>row. row ! j) E"
  have ml: "length mem = nat (N cfg)"
    by (simp add: mem_def El)
  define cv where "cv = map (\<lambda>i. if u i \<le> 1 - corruption_level cfg then 1 else - 1 :: real)
                           [0..<nat (N cfg)]"
  have v: "generate_corruption_vector (N cfg) (corruption_level cfg) u = Inr cv"
    unfolding cv_def by (rule generate_corruption_vector_value [OF n0])
  have vl: "length cv = nat (N cfg)"
    by (simp add: cv_def)
  define x0 where "x0 = mul_vec mem cv"
  have xl: "length x0 = nat (N cfg)"
    by (simp add: x0_def mul_vec_def ml vl)
  let ?psi0 = "psi_0_of (beta cfg) x0"
  let ?P0 = "smul_mat (1 / beta cfg) (atanh_mat ?psi0)"
  let ?S0 = "smul_mat (1 / beta cfg) (atanh_mat (S0_argument (N cfg) E ?psi0))"
  let ?s0 = "\<lparr>heap = (\<lambda>_. None)(0 \<mapsto> Mat E, 1 \<mapsto> Vec mem, 2 \<mapsto> Vec x0, 3 \<mapsto> Mat ?psi0, 4 \<mapsto> Mat ?P0,
                     5 \<mapsto> Mat ?S0, 6 \<mapsto> Vec x0, 7 \<mapsto> Mat ?S0, 8 \<mapsto> Mat ?P0),
          env = (\<lambda>_. None)(''etas'' \<mapsto> 0, ''mem'' \<mapsto> 1, ''x0'' \<mapsto> 2, ''psi_0'' \<mapsto> 3, ''P0'' \<mapsto> 4,
                     ''S0'' \<mapsto> 5, ''x'' \<mapsto> 6, ''S'' \<mapsto> 7, ''P'' \<mapsto> 8),
          fresh = 9\<rparr>"
  have run: "init_cell cfg bits u empty_store = Inr ?s0"
    unfolding x0_def mem_def S0_argument_def
    using init_cell_store [OF r c [unfolded E_def] v assms(4) nz]
    by (simp only: E_def [symmetric])
  have b: "bound_at ?s0 ''etas'' 0 (Mat E)" "bound_at ?s0 ''mem'' 1 (Vec mem)"
     "bound_at ?s0 ''x0'' 2 (Vec x0)" "bound_at ?s0 ''psi_0'' 3 (Mat ?psi0)"
     "bound_at ?s0 ''P0'' 4 (Mat ?P0)" "bound_at ?s0 ''S0'' 5 (Mat ?S0)"
     "bound_at ?s0 ''x'' 6 (Vec x0)" "bound_at ?s0 ''S'' 7 (Mat ?S0)" "bound_at ?s0 ''P'' 8 (Mat ?P0)"
    by (simp_all add: bound_at_def)
  have units: "(\<forall>i<nat (N cfg). \<forall>j<nat (K cfg). \<bar>E ! i ! j\<bar> = 1) \<and> (\<forall>a\<in>set x0. a = 1 \<or> a = - 1)"
    if bits: "\<forall>i j. bits i j < 2"
  proof -
    have eu: "\<forall>i<nat (N cfg). \<forall>j<nat (K cfg). \<bar>E ! i ! j\<bar> = 1"
      unfolding E_def using etas_unit_entries [OF bits] by blast
    have mu: "\<forall>i<nat (N cfg). \<bar>mem ! i\<bar> = 1"
      using eu j by (simp add: mem_def El)
    have cu: "\<forall>i<nat (N cfg). cv ! i = 1 \<or> cv ! i = - 1"
      by (simp add: cv_def)
    have "\<forall>a\<in>set x0. a = 1 \<or> a = - 1"
      unfolding x0_def by (rule mul_vec_unit_entries [OF ml vl mu cu])
    with eu show ?thesis by simp
  qed
  from run b Es xl units show ?thesis
    by blast
qed

lemma atanh_defined_matI:
  assumes "is_mat n m M" "\<And>i j. i < n \<Longrightarrow> j < m \<Longrightarrow> atanh_defined (M ! i ! j)"
  shows "atanh_defined_mat M"
  unfolding atanh_defined_mat_def
proof (intro ballI)
  fix row a assume "row \<in> set M" "a \<in> set row"
  then obtain i j where "i < length M" "row = M ! i" "j < length row" "a = row ! j"
    by (metis in_set_conv_nth)
  then show "atanh_defined a"
    using assms by (simp add: is_mat_def)
qed

lemma is_mat_S0_argument: "is_mat (length etas) (length etas) (S0_argument n etas psi)"
  unfolding S0_argument_def smul_mat_map by (rule is_mat_map_map) (rule is_mat_einsum)

lemma nth_S0_argument:
  assumes "is_mat n k etas" "i < n" "j < n"
  shows "S0_argument m etas psi ! i ! j =
     - (1 / of_int (m ^ 3)) *
       (\<Sum>a<k. \<Sum>b<n. \<Sum>c<n. etas ! i ! a * etas ! j ! a * etas ! b ! a * etas ! c ! a * psi ! b ! c)"
proof -
  have len: "length etas = n" and row: "length (etas ! i) = k"
    using assms by (simp_all add: is_mat_def)
  have e: "is_mat n n (einsum_im_jm_km_lm_kl etas etas etas etas psi)"
    using is_mat_einsum [of etas etas etas etas psi] by (simp add: len)
  have "S0_argument m etas psi ! i ! j =
      - (1 / of_int (m ^ 3)) * einsum_im_jm_km_lm_kl etas etas etas etas psi ! i ! j"
    unfolding S0_argument_def smul_mat_map
    by (rule nth_map_map [OF e assms(2,3)])
  also have "einsum_im_jm_km_lm_kl etas etas etas etas psi ! i ! j =
      (\<Sum>a<k. \<Sum>b<n. \<Sum>c<n. etas ! i ! a * etas ! j ! a * etas ! b ! a * etas ! c ! a * psi ! b ! c)"
    using assms(2,3) by (simp add: einsum_im_jm_km_lm_kl_def len row)
  finally show ?thesis .
qed

lemma S0_argument_in_domain:
  assumes E: "is_mat n k etas" and unit: "\<forall>i<n. \<forall>j<k. \<bar>etas ! i ! j\<bar> = 1"
    and psi: "\<forall>i<n. \<forall>j<n. \<bar>psi ! i ! j\<bar> \<le> c" and c: "0 \<le> c" "c < 1"
    and n: "0 < n" and kn: "k \<le> n"
  shows "atanh_defined_mat (S0_argument (int n) etas psi)"
proof (rule atanh_defined_matI)
  show "is_mat n n (S0_argument (int n) etas psi)"
    using is_mat_S0_argument [of etas "int n" psi] E by (simp add: is_mat_def)
next
  fix i j assume i: "i < n" and j: "j < n"
  let ?f = "\<lambda>a b c. etas ! i ! a * etas ! j ! a * etas ! b ! a * etas ! c ! a * psi ! b ! c"
  have tm: "\<bar>?f a b d\<bar> \<le> c" if "a < k" "b < n" "d < n" for a b d
  proof -
    have "\<bar>?f a b d\<bar> = \<bar>etas ! i ! a\<bar> * \<bar>etas ! j ! a\<bar> * \<bar>etas ! b ! a\<bar> * \<bar>etas ! d ! a\<bar> * \<bar>psi ! b ! d\<bar>"
      by (simp add: abs_mult)
    also have "\<dots> = \<bar>psi ! b ! d\<bar>"
      using unit i j that by simp
    also have "\<dots> \<le> c"
      using psi that by simp
    finally show ?thesis .
  qed
  have tot: "\<bar>\<Sum>a<k. \<Sum>b<n. \<Sum>d<n. ?f a b d\<bar> \<le> real k * (real n * (real n * c))"
    by (rule abs_triple_sum_le) (rule tm)
  have "real k * (real n * (real n * c)) \<le> real n * (real n * (real n * c))"
    using kn c(1) by (intro mult_right_mono) simp_all
  with tot have le: "\<bar>\<Sum>a<k. \<Sum>b<n. \<Sum>d<n. ?f a b d\<bar> \<le> real n ^ 3 * c"
    by (simp add: power3_eq_cube mult.assoc)
  have pos: "0 < real n ^ 3"
    using n by simp
  have val: "S0_argument (int n) etas psi ! i ! j =
      - (1 / real n ^ 3) * (\<Sum>a<k. \<Sum>b<n. \<Sum>d<n. ?f a b d)"
    using nth_S0_argument [OF E i j, of "int n" psi] by simp
  have "\<bar>S0_argument (int n) etas psi ! i ! j\<bar> = \<bar>\<Sum>a<k. \<Sum>b<n. \<Sum>d<n. ?f a b d\<bar> / real n ^ 3"
    unfolding val using pos by (simp add: abs_mult)
  also have "\<dots> \<le> c"
    using le pos by (simp add: pos_divide_le_eq mult.commute)
  finally have "\<bar>S0_argument (int n) etas psi ! i ! j\<bar> < 1"
    using c(2) by simp
  then show "atanh_defined (S0_argument (int n) etas psi ! i ! j)"
    by (simp add: atanh_defined_def abs_less_iff)
qed

lemma psi_0_of_in_domain: "atanh_defined_mat (psi_0_of b x0)"
proof (rule atanh_defined_matI [OF is_mat_psi_0_of])
  fix i j assume ij: "i < length x0" "j < length x0"
  have "\<bar>tanh (b * x0 ! i)\<bar> < 1" "\<bar>tanh (b * x0 ! j)\<bar> < 1"
    using tanh_real_lt_1 tanh_real_gt_neg1 by (simp_all add: abs_less_iff)
  then have "\<bar>tanh (b * x0 ! i)\<bar> * \<bar>tanh (b * x0 ! j)\<bar> < 1 * 1"
    by (intro mult_strict_mono) simp_all
  then have "\<bar>psi_0_of b x0 ! i ! j\<bar> < 1"
    by (simp add: nth_psi_0_of [OF ij] abs_mult)
  then show "atanh_defined (psi_0_of b x0 ! i ! j)"
    by (simp add: atanh_defined_def abs_less_iff)
qed

lemma symmetric_S0_value:
  assumes "is_mat n k etas"
  shows "symmetric n (smul_mat c (atanh_mat (S0_argument m etas psi)))"
  unfolding S0_argument_def
  by (intro symmetric_smul_mat symmetric_atanh_mat symmetric_einsum [OF assms])

lemma symmetric_P0_value:
  assumes "length x0 = n"
  shows "symmetric n (smul_mat c (atanh_mat (psi_0_of b x0)))"
  by (intro symmetric_smul_mat symmetric_atanh_mat symmetric_psi_0_of assms)

text \<open>
  C5, as the code has it (in exact arithmetic): one iteration of the loop keeps \<open>S\<close> and \<open>P\<close>
  symmetric (for an \<open>x\<close> of length \<open>m\<close> and a memory bank with \<open>m\<close> rows).  The initial \<open>P0\<close>
  and \<open>S0\<close> are \<open>atanh\<close> of \<open>psi_0\<close> and of \<open>S0_argument\<close>, scaled by \<open>1 / beta\<close>; when
  every entry of both arguments lies inside the domain of \<open>atanh\<close>, \<open>S0\<close> and \<open>P0\<close> are
  symmetric and \<open>S\<close> and \<open>P\<close> are symmetric after any number \<open>t\<close> of iterations.  Both
  arguments are inside the domain whenever \<open>K \<le> N\<close> and the memory bank has entries \<open>1\<close> and
  \<open>-1\<close>.
\<close>

theorem S_P_symmetric_within_atanh_domain:
  "(bound_at s ''x'' ax (Vec x) \<and> bound_at s ''S'' aS (Mat S) \<and> bound_at s ''P'' aP (Mat P) \<and>
    bound_at s ''etas'' ae (Mat E) \<and> aS \<noteq> aP \<and> aS \<noteq> ae \<and> N cfg \<noteq> 0 \<and>
    length x = m \<and> is_mat m k E \<and> symmetric m S \<and> symmetric m P \<longrightarrow>
      (\<exists>s' S' P'. euler_body cfg s = Inr s' \<and> get_mat ''S'' s' = Inr S' \<and>
         get_mat ''P'' s' = Inr P' \<and> symmetric m S' \<and> symmetric m P')) \<and>
   (0 < N cfg \<and> - K cfg \<le> memory_to_seed_from cfg \<and> memory_to_seed_from cfg < K cfg \<and>
    beta cfg \<noteq> 0 \<longrightarrow>
      (\<exists>s0 etas psi0 S0 P0.
         init_cell cfg bits u empty_store = Inr s0 \<and>
         get_mat ''etas'' s0 = Inr etas \<and> get_mat ''psi_0'' s0 = Inr psi0 \<and>
         get_mat ''P0'' s0 = Inr P0 \<and> P0 = smul_mat (1 / beta cfg) (atanh_mat psi0) \<and>
         get_mat ''S0'' s0 = Inr S0 \<and>
         S0 = smul_mat (1 / beta cfg) (atanh_mat (S0_argument (N cfg) etas psi0)) \<and>
         (K cfg \<le> N cfg \<and> (\<forall>i j. bits i j < 2) \<longrightarrow>
            atanh_defined_mat psi0 \<and> atanh_defined_mat (S0_argument (N cfg) etas psi0)) \<and>
         (atanh_defined_mat psi0 \<and> atanh_defined_mat (S0_argument (N cfg) etas psi0) \<longrightarrow>
            symmetric (nat (N cfg)) S0 \<and> symmetric (nat (N cfg)) P0 \<and>
            (\<exists>st St Pt. euler_loop cfg t s0 = Inr st \<and>
               get_mat ''S'' st = Inr St \<and> get_mat ''P'' st = Inr Pt \<and>
               symmetric (nat (N cfg)) St \<and> symmetric (nat (N cfg)) Pt))))"
proof (intro conjI impI)
  assume a: "bound_at s ''x'' ax (Vec x) \<and> bound_at s ''S'' aS (Mat S) \<and> bound_at s ''P'' aP (Mat P) \<and>
    bound_at s ''etas'' ae (Mat E) \<and> aS \<noteq> aP \<and> aS \<noteq> ae \<and> N cfg \<noteq> 0 \<and>
    length x = m \<and> is_mat m k E \<and> symmetric m S \<and> symmetric m P"
  obtain x' S' P' where st:
    "snapshot_step (beta cfg) (dt cfg) (N cfg) E (x, S, P) = (x', S', P')"
    by (cases "snapshot_step (beta cfg) (dt cfg) (N cfg) E (x, S, P)") auto
  have sym: "length x' = m \<and> symmetric m S' \<and> symmetric m P'"
    using snapshot_step_symmetric [OF _ _ _ _ st] a by blast
  from a have b: "bound_at s ''x'' ax (Vec x)" "bound_at s ''S'' aS (Mat S)"
    "bound_at s ''P'' aP (Mat P)" "bound_at s ''etas'' ae (Mat E)" "aS \<noteq> aP" "aS \<noteq> ae"
    "N cfg \<noteq> 0"
    by simp_all
  from euler_body_store [OF b st] obtain s' where
    r: "euler_body cfg s = Inr s'" and
    e: "env s' = (env s)(''h'' \<mapsto> fresh s, ''g'' \<mapsto> Suc (fresh s), ''psi'' \<mapsto> Suc (Suc (fresh s)))" and
    h: "heap s' = (heap s)(fresh s \<mapsto> Vec (tanh_vec (smul_vec (beta cfg) x)),
        Suc (fresh s) \<mapsto> Mat (tanh_mat (smul_mat (beta cfg) S)),
        Suc (Suc (fresh s)) \<mapsto> Mat (tanh_mat (smul_mat (beta cfg) P)),
        ax \<mapsto> Vec x', aS \<mapsto> Mat S', aP \<mapsto> Mat P')"
    by blast
  have "get_mat ''S'' s' = Inr S'" "get_mat ''P'' s' = Inr P'"
    using b(1-6) by (auto simp add: get_mat_def bound_at_def e h)
  with r sym show "\<exists>s' S' P'. euler_body cfg s = Inr s' \<and> get_mat ''S'' s' = Inr S' \<and>
         get_mat ''P'' s' = Inr P' \<and> symmetric m S' \<and> symmetric m P'"
    by blast
next
  assume v: "0 < N cfg \<and> - K cfg \<le> memory_to_seed_from cfg \<and> memory_to_seed_from cfg < K cfg \<and>
    beta cfg \<noteq> 0"
  then have v': "0 < N cfg" "- K cfg \<le> memory_to_seed_from cfg" "memory_to_seed_from cfg < K cfg"
    "beta cfg \<noteq> 0"
    by simp_all
  let ?n = "nat (N cfg)"
  from init_cell_detail [OF v', of bits u] obtain s0 etas mem x0 where
    i: "init_cell cfg bits u empty_store = Inr s0" and
    be: "bound_at s0 ''etas'' 0 (Mat etas)" and
    bpsi: "bound_at s0 ''psi_0'' 3 (Mat (psi_0_of (beta cfg) x0))" and
    bP0: "bound_at s0 ''P0'' 4 (Mat (smul_mat (1 / beta cfg) (atanh_mat (psi_0_of (beta cfg) x0))))" and
    bS0: "bound_at s0 ''S0'' 5 (Mat (smul_mat (1 / beta cfg)
        (atanh_mat (S0_argument (N cfg) etas (psi_0_of (beta cfg) x0)))))" and
    bx: "bound_at s0 ''x'' 6 (Vec x0)" and
    bS: "bound_at s0 ''S'' 7 (Mat (smul_mat (1 / beta cfg)
        (atanh_mat (S0_argument (N cfg) etas (psi_0_of (beta cfg) x0)))))" and
    bP: "bound_at s0 ''P'' 8 (Mat (smul_mat (1 / beta cfg) (atanh_mat (psi_0_of (beta cfg) x0))))" and
    Es: "is_mat ?n (nat (K cfg)) etas" and xl: "length x0 = ?n" and
    units: "(\<forall>i j. bits i j < 2) \<longrightarrow>
        (\<forall>i<?n. \<forall>j<nat (K cfg). \<bar>etas ! i ! j\<bar> = 1) \<and> (\<forall>a\<in>set x0. a = 1 \<or> a = - 1)"
    by blast
  let ?psi0 = "psi_0_of (beta cfg) x0"
  let ?P0 = "smul_mat (1 / beta cfg) (atanh_mat ?psi0)"
  let ?S0 = "smul_mat (1 / beta cfg) (atanh_mat (S0_argument (N cfg) etas ?psi0))"
  have Ssym: "symmetric ?n ?S0"
    by (rule symmetric_S0_value [OF Es])
  have Psym: "symmetric ?n ?P0"
    by (rule symmetric_P0_value [OF xl])
  have dom: "atanh_defined_mat ?psi0 \<and> atanh_defined_mat (S0_argument (N cfg) etas ?psi0)"
    if suff: "K cfg \<le> N cfg \<and> (\<forall>i j. bits i j < 2)"
  proof -
    have eu: "\<forall>i<?n. \<forall>j<nat (K cfg). \<bar>etas ! i ! j\<bar> = 1" and xu: "\<forall>a\<in>set x0. a = 1 \<or> a = - 1"
      using units suff by simp_all
    have pe: "\<forall>i<?n. \<forall>j<?n. \<bar>?psi0 ! i ! j\<bar> \<le> (tanh (beta cfg))\<^sup>2"
      using psi_0_of_unit_entries [OF xu, of _ _ "beta cfg"] xl by simp
    have n: "0 < ?n" and Nn: "int ?n = N cfg"
      using v'(1) by simp_all
    have "K cfg \<le> N cfg"
      using suff by simp
    then have kn: "nat (K cfg) \<le> ?n"
      by (rule nat_mono)
    have "atanh_defined_mat (S0_argument (int ?n) etas ?psi0)"
      by (rule S0_argument_in_domain [OF Es eu pe _ tanh_sq_less_1 n kn]) simp
    then have "atanh_defined_mat (S0_argument (N cfg) etas ?psi0)"
      unfolding Nn .
    then show ?thesis
      using psi_0_of_in_domain [of "beta cfg" x0] by blast
  qed
  obtain xt St Pt where steps:
    "(snapshot_step (beta cfg) (dt cfg) (N cfg) etas ^^ t) (x0, ?S0, ?P0) = (xt, St, Pt)"
    by (cases "(snapshot_step (beta cfg) (dt cfg) (N cfg) etas ^^ t) (x0, ?S0, ?P0)") auto
  have nz: "N cfg \<noteq> 0" using v'(1) by simp
  have d: "(7::nat) \<noteq> 8" "(7::nat) \<noteq> 0" "(8::nat) \<noteq> 0" by simp_all
  from euler_loop_steps [OF bx bS bP be d nz steps] obtain st where
    l: "euler_loop cfg t s0 = Inr st" and
    cS: "bound_at st ''S'' 7 (Mat St)" and cP: "bound_at st ''P'' 8 (Mat Pt)"
    by blast
  have inv: "length xt = ?n \<and> symmetric ?n St \<and> symmetric ?n Pt"
    using snapshot_steps_symmetric [OF xl Ssym Psym Es steps] .
  have loop: "\<exists>st St Pt. euler_loop cfg t s0 = Inr st \<and>
      get_mat ''S'' st = Inr St \<and> get_mat ''P'' st = Inr Pt \<and>
      symmetric ?n St \<and> symmetric ?n Pt"
    using l get_mat_bound [OF cS] get_mat_bound [OF cP] inv by blast
  show "\<exists>s0 etas psi0 S0 P0.
         init_cell cfg bits u empty_store = Inr s0 \<and>
         get_mat ''etas'' s0 = Inr etas \<and> get_mat ''psi_0'' s0 = Inr psi0 \<and>
         get_mat ''P0'' s0 = Inr P0 \<and> P0 = smul_mat (1 / beta cfg) (atanh_mat psi0) \<and>
         get_mat ''S0'' s0 = Inr S0 \<and>
         S0 = smul_mat (1 / beta cfg) (atanh_mat (S0_argument (N cfg) etas psi0)) \<and>
         (K cfg \<le> N cfg \<and> (\<forall>i j. bits i j < 2) \<longrightarrow>
            atanh_defined_mat psi0 \<and> atanh_defined_mat (S0_argument (N cfg) etas psi0)) \<and>
         (atanh_defined_mat psi0 \<and> atanh_defined_mat (S0_argument (N cfg) etas psi0) \<longrightarrow>
            symmetric (nat (N cfg)) S0 \<and> symmetric (nat (N cfg)) P0 \<and>
            (\<exists>st St Pt. euler_loop cfg t s0 = Inr st \<and>
               get_mat ''S'' st = Inr St \<and> get_mat ''P'' st = Inr Pt \<and>
               symmetric (nat (N cfg)) St \<and> symmetric (nat (N cfg)) Pt))"
    apply (rule exI [of _ s0], rule exI [of _ etas], rule exI [of _ ?psi0])
    apply (rule exI [of _ ?S0], rule exI [of _ ?P0])
    using i get_mat_bound [OF be] get_mat_bound [OF bpsi] get_mat_bound [OF bP0]
      get_mat_bound [OF bS0] dom Ssym Psym loop
    apply simp
    done
qed

theorem S_P_symmetric_within_atanh_domain_witness:
  "(\<exists>s' S' P'.
      euler_body notebook_config
        \<lparr>heap = (\<lambda>_. None)(0 \<mapsto> Vec [0, 0], 1 \<mapsto> Mat [[0, 1], [1, 0]],
                               2 \<mapsto> Mat [[0, 2], [2, 0]], 3 \<mapsto> Mat [[1], [- 1]]),
         env = (\<lambda>_. None)(''x'' \<mapsto> 0, ''S'' \<mapsto> 1, ''P'' \<mapsto> 2, ''etas'' \<mapsto> 3),
         fresh = 4\<rparr> = Inr s' \<and>
      get_mat ''S'' s' = Inr S' \<and> get_mat ''P'' s' = Inr P' \<and>
      symmetric 2 S' \<and> symmetric 2 P') \<and>
   (\<exists>s0 etas psi0 S0 P0.
      init_cell notebook_config zero_bits zero_draw empty_store = Inr s0 \<and>
      get_mat ''etas'' s0 = Inr etas \<and> get_mat ''psi_0'' s0 = Inr psi0 \<and>
      get_mat ''P0'' s0 = Inr P0 \<and> get_mat ''S0'' s0 = Inr S0 \<and>
      atanh_defined_mat psi0 \<and> atanh_defined_mat (S0_argument 500 etas psi0) \<and>
      symmetric 500 S0 \<and> symmetric 500 P0 \<and>
      (\<exists>st St Pt. euler_loop notebook_config 1000 s0 = Inr st \<and>
         get_mat ''S'' st = Inr St \<and> get_mat ''P'' st = Inr Pt \<and>
         symmetric 500 St \<and> symmetric 500 Pt))"
proof -
  let ?s = "\<lparr>heap = (\<lambda>_. None)(0 \<mapsto> Vec [0, 0], 1 \<mapsto> Mat [[0, 1], [1, 0]],
                               2 \<mapsto> Mat [[0, 2], [2, 0]], 3 \<mapsto> Mat [[1], [- 1 :: real]]),
         env = (\<lambda>_. None)(''x'' \<mapsto> 0, ''S'' \<mapsto> 1, ''P'' \<mapsto> 2, ''etas'' \<mapsto> 3),
         fresh = 4\<rparr>"
  have sel: "N notebook_config = 500" "K notebook_config = 10" "beta notebook_config = 5"
    "memory_to_seed_from notebook_config = 2" "nat (500::int) = 500"
    by (simp_all add: notebook_config_def)
  have h1: "bound_at ?s ''x'' 0 (Vec [0, 0]) \<and> bound_at ?s ''S'' 1 (Mat [[0, 1], [1, 0]]) \<and>
    bound_at ?s ''P'' 2 (Mat [[0, 2], [2, 0]]) \<and> bound_at ?s ''etas'' 3 (Mat [[1], [- 1]]) \<and>
    (1::nat) \<noteq> 2 \<and> (1::nat) \<noteq> 3 \<and> N notebook_config \<noteq> 0 \<and>
    length [0, 0 :: real] = 2 \<and> is_mat 2 1 [[1], [- 1]] \<and>
    symmetric 2 [[0, 1], [1, 0]] \<and> symmetric 2 [[0, 2], [2, 0]]"
    by (simp add: bound_at_def is_mat_def symmetric_def sel less_Suc_eq numeral_2_eq_2)
  have h2: "0 < N notebook_config \<and> - K notebook_config \<le> memory_to_seed_from notebook_config \<and>
    memory_to_seed_from notebook_config < K notebook_config \<and> beta notebook_config \<noteq> 0"
    by (simp add: sel)
  have h3: "K notebook_config \<le> N notebook_config \<and> (\<forall>i j. zero_bits i j < 2)"
    by (simp add: sel zero_bits_def)
  note T = S_P_symmetric_within_atanh_domain [where s = ?s and cfg = notebook_config and ax = 0
        and aS = 1 and aP = 2 and ae = 3 and x = "[0, 0]" and S = "[[0, 1], [1, 0]]"
        and P = "[[0, 2], [2, 0]]" and E = "[[1], [- 1]]" and m = 2 and k = 1
        and bits = zero_bits and u = zero_draw and t = 1000]
  have p1: "\<exists>s' S' P'. euler_body notebook_config ?s = Inr s' \<and>
      get_mat ''S'' s' = Inr S' \<and> get_mat ''P'' s' = Inr P' \<and>
      symmetric 2 S' \<and> symmetric 2 P'"
    using T [THEN conjunct1] h1 by (rule mp)
  have "\<exists>s0 etas psi0 S0 P0.
         init_cell notebook_config zero_bits zero_draw empty_store = Inr s0 \<and>
         get_mat ''etas'' s0 = Inr etas \<and> get_mat ''psi_0'' s0 = Inr psi0 \<and>
         get_mat ''P0'' s0 = Inr P0 \<and> P0 = smul_mat (1 / beta notebook_config) (atanh_mat psi0) \<and>
         get_mat ''S0'' s0 = Inr S0 \<and>
         S0 = smul_mat (1 / beta notebook_config)
                (atanh_mat (S0_argument (N notebook_config) etas psi0)) \<and>
         (K notebook_config \<le> N notebook_config \<and> (\<forall>i j. zero_bits i j < 2) \<longrightarrow>
            atanh_defined_mat psi0 \<and>
            atanh_defined_mat (S0_argument (N notebook_config) etas psi0)) \<and>
         (atanh_defined_mat psi0 \<and>
          atanh_defined_mat (S0_argument (N notebook_config) etas psi0) \<longrightarrow>
            symmetric (nat (N notebook_config)) S0 \<and> symmetric (nat (N notebook_config)) P0 \<and>
            (\<exists>st St Pt. euler_loop notebook_config 1000 s0 = Inr st \<and>
               get_mat ''S'' st = Inr St \<and> get_mat ''P'' st = Inr Pt \<and>
               symmetric (nat (N notebook_config)) St \<and> symmetric (nat (N notebook_config)) Pt))"
    using T [THEN conjunct2] h2 by (rule mp)
  then obtain s0 etas psi0 S0 P0 where
    i: "init_cell notebook_config zero_bits zero_draw empty_store = Inr s0" and
    g: "get_mat ''etas'' s0 = Inr etas" "get_mat ''psi_0'' s0 = Inr psi0"
       "get_mat ''P0'' s0 = Inr P0" "get_mat ''S0'' s0 = Inr S0" and
    suff: "K notebook_config \<le> N notebook_config \<and> (\<forall>i j. zero_bits i j < 2) \<longrightarrow>
            atanh_defined_mat psi0 \<and>
            atanh_defined_mat (S0_argument (N notebook_config) etas psi0)" and
    sym: "atanh_defined_mat psi0 \<and>
          atanh_defined_mat (S0_argument (N notebook_config) etas psi0) \<longrightarrow>
            symmetric (nat (N notebook_config)) S0 \<and> symmetric (nat (N notebook_config)) P0 \<and>
            (\<exists>st St Pt. euler_loop notebook_config 1000 s0 = Inr st \<and>
               get_mat ''S'' st = Inr St \<and> get_mat ''P'' st = Inr Pt \<and>
               symmetric (nat (N notebook_config)) St \<and> symmetric (nat (N notebook_config)) Pt)"
    by blast
  have dom: "atanh_defined_mat psi0 \<and> atanh_defined_mat (S0_argument 500 etas psi0)"
    using suff h3 unfolding sel by (rule mp)
  have "symmetric 500 S0 \<and> symmetric 500 P0 \<and>
            (\<exists>st St Pt. euler_loop notebook_config 1000 s0 = Inr st \<and>
               get_mat ''S'' st = Inr St \<and> get_mat ''P'' st = Inr Pt \<and>
               symmetric 500 St \<and> symmetric 500 Pt)"
    using sym dom unfolding sel by (rule mp)
  with i g dom p1 show ?thesis
    by blast
qed

text \<open>
  One neuron and two memories at the gain of the notebook: the cell reaches the statement
  that creates \<open>S0\<close>, and the argument it hands to \<open>atanh\<close> is \<open>2 * (tanh 5)\<^sup>2\<close>, above \<open>1\<close>.
\<close>

theorem S0_argument_outside_atanh_domain:
  "\<not> isl (init_cell (notebook_config\<lparr>N := 1, K := 2, memory_to_seed_from := 0\<rparr>)
            zero_bits zero_draw empty_store) \<and>
   get_mat ''etas'' (projr (init_cell (notebook_config\<lparr>N := 1, K := 2, memory_to_seed_from := 0\<rparr>)
            zero_bits zero_draw empty_store)) = Inr [[- 1, - 1]] \<and>
   get_mat ''psi_0'' (projr (init_cell (notebook_config\<lparr>N := 1, K := 2, memory_to_seed_from := 0\<rparr>)
            zero_bits zero_draw empty_store)) = Inr (psi_0_of 5 [- 1]) \<and>
   get_mat ''S0'' (projr (init_cell (notebook_config\<lparr>N := 1, K := 2, memory_to_seed_from := 0\<rparr>)
            zero_bits zero_draw empty_store))
     = Inr (smul_mat (1 / 5) (atanh_mat (S0_argument 1 [[- 1, - 1]] (psi_0_of 5 [- 1])))) \<and>
   S0_argument 1 [[- 1, - 1]] (psi_0_of 5 [- 1]) = [[2 * (tanh 5)\<^sup>2]] \<and>
   \<not> atanh_defined_mat (S0_argument 1 [[- 1, - 1]] (psi_0_of 5 [- 1]))"
proof -
  let ?cfg = "notebook_config\<lparr>N := 1, K := 2, memory_to_seed_from := 0\<rparr>"
  have r: "randint (N ?cfg) (K ?cfg) zero_bits = Inr [[0, 0]]"
    by (simp add: randint_def notebook_config_def zero_bits_def upt_rec numeral_2_eq_2)
  have E: "sub_scalar_mat (smul_mat 2 [[0, 0]]) 1 = [[- 1, - 1]]"
    by (simp add: sub_scalar_mat_def smul_mat_def smul_vec_def)
  have c: "select_column (K ?cfg) (sub_scalar_mat (smul_mat 2 [[0, 0]]) 1) (memory_to_seed_from ?cfg)
      = Inr [- 1]"
    by (simp add: E select_column_def notebook_config_def)
  have v: "generate_corruption_vector (N ?cfg) (corruption_level ?cfg) zero_draw = Inr [1]"
    by (simp add: generate_corruption_vector_value notebook_config_def zero_draw_def)
  have b: "beta ?cfg \<noteq> 0" "N ?cfg \<noteq> 0"
    by (simp_all add: notebook_config_def)
  have x0: "mul_vec [- 1] [1] = [- 1 :: real]"
    by (simp add: mul_vec_def)
  have sel: "beta ?cfg = 5" "N ?cfg = 1"
    by (simp_all add: notebook_config_def)
  note run = init_cell_store [OF r c v b, unfolded E x0 sel]
  have arg: "S0_argument 1 [[- 1, - 1]] (psi_0_of 5 [- 1]) = [[2 * (tanh 5)\<^sup>2]]"
    by (simp add: S0_argument_def einsum_im_jm_km_lm_kl_def psi_0_of_def smul_mat_def
          smul_vec_def neg_mat_def neg_vec_def outer_def tanh_vec_def power2_eq_square
          numeral_2_eq_2)
  have out: "\<not> atanh_defined_mat (S0_argument 1 [[- 1, - 1]] (psi_0_of 5 [- 1]))"
    using two_tanh_5_sq by (simp add: arg atanh_defined_mat_def atanh_defined_def)
  show ?thesis
    using arg out by (simp add: run get_mat_def S0_argument_def)
qed

lemma psi_0_of_eq_with: "psi_0_of b x0 = psi_0_with tanh b x0"
  by (simp add: psi_0_of_def psi_0_with_def tanh_vec_def)

lemma nth_psi_0_with:
  assumes "i < length x0" "j < length x0"
  shows "psi_0_with th b x0 ! i ! j = - (th (b * x0 ! i) * th (b * x0 ! j))"
  using assms
  by (simp add: psi_0_with_def neg_mat_def neg_vec_def outer_def smul_vec_def)

lemma abs_product_less_1_iff:
  fixes p q :: real
  assumes "\<bar>p\<bar> \<le> 1" "\<bar>q\<bar> \<le> 1"
  shows "\<bar>p\<bar> * \<bar>q\<bar> < 1 \<longleftrightarrow> \<bar>p\<bar> < 1 \<or> \<bar>q\<bar> < 1"
proof
  assume "\<bar>p\<bar> * \<bar>q\<bar> < 1"
  show "\<bar>p\<bar> < 1 \<or> \<bar>q\<bar> < 1"
  proof (rule ccontr)
    assume "\<not> (\<bar>p\<bar> < 1 \<or> \<bar>q\<bar> < 1)"
    then have "\<bar>p\<bar> = 1" "\<bar>q\<bar> = 1"
      using assms by simp_all
    with \<open>\<bar>p\<bar> * \<bar>q\<bar> < 1\<close> show False by simp
  qed
next
  assume d: "\<bar>p\<bar> < 1 \<or> \<bar>q\<bar> < 1"
  have le: "\<bar>p\<bar> * \<bar>q\<bar> \<le> \<bar>p\<bar>" "\<bar>p\<bar> * \<bar>q\<bar> \<le> \<bar>q\<bar>"
    using assms by (simp_all add: mult_left_le mult_left_le_one_le)
  from d show "\<bar>p\<bar> * \<bar>q\<bar> < 1"
  proof
    assume "\<bar>p\<bar> < 1" with le(1) show ?thesis by simp
  next
    assume "\<bar>q\<bar> < 1" with le(2) show ?thesis by simp
  qed
qed

lemma atanh_defined_abs: "atanh_defined a \<longleftrightarrow> \<bar>a\<bar> < 1"
  by (auto simp add: atanh_defined_def abs_less_iff)

text \<open>
  C3, as the code has it.  Write \<open>th\<close> for the function \<open>torch.tanh\<close> computes, with values
  of magnitude at most \<open>1\<close>.  For \<open>x0\<close> with entries in \<open>{-1, 1}\<close> the activation at entry \<open>i\<close> is
  \<open>th beta\<close> or \<open>th (- beta)\<close>.  The diagonal entry \<open>i\<close> of \<open>psi_0\<close> is minus its square, so it
  is \<open>-1\<close> exactly when that activation has magnitude \<open>1\<close>.  The entry \<open>(i, j)\<close> has the product
  of the two magnitudes as absolute value, so it lies inside the domain of \<open>atanh\<close>, where
  \<open>P0\<close> is the finite value with \<open>tanh (beta * P0[i, j]) = psi_0[i, j]\<close>, exactly when one of
  the two activations has magnitude below \<open>1\<close>; where the diagonal is \<open>-1\<close> at \<open>i\<close> and at \<open>j\<close>,
  the entry \<open>(i, j)\<close> is outside that domain as well.
\<close>

theorem psi_0_diagonal_and_atanh_domain:
  assumes "\<forall>a\<in>set x0. a = 1 \<or> a = - 1" and "\<forall>a. \<bar>th a\<bar> \<le> 1"
    and "i < length x0" and "j < length x0"
  shows "psi_0_of b x0 = psi_0_with tanh b x0 \<and>
    (b * x0 ! i = b \<or> b * x0 ! i = - b) \<and>
    psi_0_with th b x0 ! i ! i = - (th (b * x0 ! i))\<^sup>2 \<and>
    (psi_0_with th b x0 ! i ! i = - 1 \<longleftrightarrow> \<bar>th (b * x0 ! i)\<bar> = 1) \<and>
    \<bar>psi_0_with th b x0 ! i ! j\<bar> = \<bar>th (b * x0 ! i)\<bar> * \<bar>th (b * x0 ! j)\<bar> \<and>
    (atanh_defined (psi_0_with th b x0 ! i ! j) \<longleftrightarrow>
       \<bar>th (b * x0 ! i)\<bar> < 1 \<or> \<bar>th (b * x0 ! j)\<bar> < 1) \<and>
    (psi_0_with th b x0 ! i ! i = - 1 \<and> psi_0_with th b x0 ! j ! j = - 1 \<longrightarrow>
       \<not> atanh_defined (psi_0_with th b x0 ! i ! j)) \<and>
    (atanh_defined (psi_0_with th b x0 ! i ! j) \<and> b \<noteq> 0 \<longrightarrow>
       tanh (b * smul_mat (1 / b) (atanh_mat (psi_0_with th b x0)) ! i ! j)
         = psi_0_with th b x0 ! i ! j)"
proof -
  let ?psi = "psi_0_with th b x0"
  let ?ti = "th (b * x0 ! i)" and ?tj = "th (b * x0 ! j)"
  have bi: "\<bar>?ti\<bar> \<le> 1" and bj: "\<bar>?tj\<bar> \<le> 1"
    using assms(2) by simp_all
  have unit: "x0 ! i = 1 \<or> x0 ! i = - 1"
    using assms(1,3) by simp
  then have arg: "b * x0 ! i = b \<or> b * x0 ! i = - b"
    by auto
  have dii: "?psi ! i ! i = - ?ti\<^sup>2"
    by (simp add: nth_psi_0_with [OF assms(3,3)] power2_eq_square)
  have djj: "?psi ! j ! j = - ?tj\<^sup>2"
    by (simp add: nth_psi_0_with [OF assms(4,4)] power2_eq_square)
  have sq: "t\<^sup>2 = 1 \<longleftrightarrow> \<bar>t\<bar> = 1" for t :: real
    by (metis abs_1 abs_power2 one_power2 power2_eq_iff_nonneg abs_ge_zero zero_le_one power2_abs)
  have diag: "?psi ! i ! i = - 1 \<longleftrightarrow> \<bar>?ti\<bar> = 1"
    by (simp add: dii sq)
  have diagj: "?psi ! j ! j = - 1 \<longleftrightarrow> \<bar>?tj\<bar> = 1"
    by (simp add: djj sq)
  have mag: "\<bar>?psi ! i ! j\<bar> = \<bar>?ti\<bar> * \<bar>?tj\<bar>"
    by (simp add: nth_psi_0_with [OF assms(3,4)] abs_mult)
  have dom: "atanh_defined (?psi ! i ! j) \<longleftrightarrow> \<bar>?ti\<bar> < 1 \<or> \<bar>?tj\<bar> < 1"
    by (simp only: atanh_defined_abs mag abs_product_less_1_iff [OF bi bj])
  have both: "\<not> atanh_defined (?psi ! i ! j)" if "?psi ! i ! i = - 1 \<and> ?psi ! j ! j = - 1"
    using that by (simp add: dom diag diagj)
  have shape: "is_mat (length x0) (length x0) ?psi"
    by (simp add: is_mat_def psi_0_with_def neg_mat_def neg_vec_def outer_def smul_vec_def)
  have inv: "tanh (b * smul_mat (1 / b) (atanh_mat ?psi) ! i ! j) = ?psi ! i ! j"
    if d: "atanh_defined (?psi ! i ! j) \<and> b \<noteq> 0"
  proof -
    have "b * smul_mat (1 / b) (atanh_mat ?psi) ! i ! j = artanh (?psi ! i ! j)"
      using d by (simp add: nth_P0 [OF shape assms(3,4)])
    moreover have "- 1 < ?psi ! i ! j" "?psi ! i ! j < 1"
      using d by (simp_all add: atanh_defined_def)
    ultimately show ?thesis
      by (simp add: tanh_artanh_real)
  qed
  from psi_0_of_eq_with arg dii diag mag dom both inv show ?thesis
    by blast
qed

theorem psi_0_diagonal_and_atanh_domain_witness:
  "psi_0_with tanh 5 [1, - 1] ! 0 ! 0 = - (tanh 5)\<^sup>2 \<and>
   psi_0_with tanh 5 [1, - 1] ! 0 ! 0 \<noteq> - 1 \<and>
   atanh_defined (psi_0_with tanh 5 [1, - 1] ! 0 ! 1) \<and>
   tanh (5 * smul_mat (1 / 5) (atanh_mat (psi_0_with tanh 5 [1, - 1])) ! 0 ! 1)
     = psi_0_with tanh 5 [1, - 1] ! 0 ! 1 \<and>
   psi_0_with (\<lambda>a. max (- 1) (min 1 a)) 10 [1, - 1] ! 0 ! 0 = - 1 \<and>
   \<not> atanh_defined (psi_0_with (\<lambda>a. max (- 1) (min 1 a)) 10 [1, - 1] ! 0 ! 1)"
proof -
  have x: "\<forall>a\<in>set [1, - 1 :: real]. a = 1 \<or> a = - 1" and i: "0 < length [1, - 1 :: real]"
    and j: "1 < length [1, - 1 :: real]"
    by simp_all
  have t: "\<forall>a::real. \<bar>tanh a\<bar> \<le> 1"
    using tanh_real_lt_1 tanh_real_gt_neg1 by (simp add: abs_le_iff less_imp_le)
  have c: "\<forall>a::real. \<bar>max (- 1) (min 1 a)\<bar> \<le> 1"
    by (simp add: abs_le_iff)
  have lt: "\<bar>tanh (5::real)\<bar> < 1"
    using tanh_real_lt_1 [of 5] tanh_real_gt_neg1 [of 5] by (simp add: abs_less_iff)
  note A = psi_0_diagonal_and_atanh_domain [OF x t i j, of 5]
  note B = psi_0_diagonal_and_atanh_domain [OF x c i j, of 10]
  have a1: "psi_0_with tanh 5 [1, - 1] ! 0 ! 0 = - (tanh 5)\<^sup>2"
    using A by simp
  have a2: "psi_0_with tanh 5 [1, - 1] ! 0 ! 0 \<noteq> - 1"
    using A lt by simp
  have a3: "atanh_defined (psi_0_with tanh 5 [1, - 1] ! 0 ! 1)"
    using A lt by simp
  have a4: "tanh (5 * smul_mat (1 / 5) (atanh_mat (psi_0_with tanh 5 [1, - 1])) ! 0 ! 1)
     = psi_0_with tanh 5 [1, - 1] ! 0 ! 1"
    using A a3 by simp
  have b1: "psi_0_with (\<lambda>a. max (- 1) (min 1 a)) 10 [1, - 1] ! 0 ! 0 = - 1"
    using B by simp
  have b2: "\<not> atanh_defined (psi_0_with (\<lambda>a. max (- 1) (min 1 a)) 10 [1, - 1] ! 0 ! 1)"
    using B by simp
  from a1 a2 a3 a4 b1 b2 show ?thesis
    by blast
qed

end
